theory Spec2Isabelle
  imports Main "HOL-Library.Char_ord" "HOL-Library.List_Lexorder" "HOL-Library.Multiset"
begin

text \<open>
  A model of the Azure DevOps MCP server's tool layer: the enablement gate of
  \<^verbatim>\<open>src/tools.ts\<close>, which decides from an environment variable which tools are
  registered, and the repository tools of \<^verbatim>\<open>src/tools/repos.ts\<close>: the projections
  of upstream entities, the translation of pull-request status, the listing of
  branches, pagination, and the handlers with their error handling. The definitions
  come first, then the properties, one section per subject.
\<close>

section \<open>JavaScript strings and arrays\<close>

text \<open>
  A JavaScript string is modelled as a \<^typ>\<open>string\<close>: a list of characters, each one
  code unit below 256. The operations below follow ECMA-262 on such strings.
\<close>

text \<open>
  \<^verbatim>\<open>String.prototype.trim\<close> removes white space and line terminators from both
  ends. Below 256 these are TAB, LF, VT, FF, CR, SPACE and NBSP.
\<close>

definition is_white_space :: "char \<Rightarrow> bool" where
  "is_white_space c \<longleftrightarrow>
     c \<in> {CHR 0x09, CHR 0x0A, CHR 0x0B, CHR 0x0C, CHR 0x0D, CHR 0x20, CHR 0xA0}"

definition trim :: "string \<Rightarrow> string" where
  "trim s = rev (dropWhile is_white_space (rev (dropWhile is_white_space s)))"

text \<open>
  \<^verbatim>\<open>s.split(",")\<close>: the pieces between the separators, in order. The empty string
  gives one empty piece.
\<close>

fun split :: "char \<Rightarrow> string \<Rightarrow> string list" where
  "split sep [] = [[]]"
| "split sep (c # cs) =
     (if c = sep then [] # split sep cs
      else (case split sep cs of
              [] \<Rightarrow> [[c]]
            | t # ts \<Rightarrow> (c # t) # ts))"

text \<open>\<^verbatim>\<open>s.startsWith(p)\<close>.\<close>

definition startsWith :: "string \<Rightarrow> string \<Rightarrow> bool" where
  "startsWith s p \<longleftrightarrow> take (length p) s = p"

text \<open>
  \<^verbatim>\<open>s.replace(p, r)\<close> with a string pattern: the first occurrence of \<open>p\<close>, searched
  from the left, is replaced by \<open>r\<close>; a string without an occurrence is returned as
  it is. (The replacement strings of the source contain no \<^verbatim>\<open>$\<close>.)
\<close>

fun replace :: "string \<Rightarrow> string \<Rightarrow> string \<Rightarrow> string" where
  "replace [] p r = (if p = [] then r else [])"
| "replace (c # cs) p r =
     (if startsWith (c # cs) p then r @ drop (length p) (c # cs)
      else c # replace cs p r)"

text \<open>\<^verbatim>\<open>s.includes(p)\<close>: \<open>p\<close> occurs in \<open>s\<close> as a substring.\<close>

fun includes_string :: "string \<Rightarrow> string \<Rightarrow> bool" where
  "includes_string [] p \<longleftrightarrow> p = []"
| "includes_string (c # cs) p \<longleftrightarrow> startsWith (c # cs) p \<or> includes_string cs p"

text \<open>
  \<^verbatim>\<open>String.prototype.toLowerCase\<close> on code units below 256: the letters A to Z and
  the Latin-1 capitals (0xC0 to 0xDE, without the multiplication sign 0xD7) move up
  by 32.
\<close>

definition toLowerCase_char :: "char \<Rightarrow> char" where
  "toLowerCase_char c =
     (let n = of_char c :: nat in
      if (65 \<le> n \<and> n \<le> 90) \<or> (192 \<le> n \<and> n \<le> 222 \<and> n \<noteq> 215)
      then char_of (n + 32) else c)"

definition toLowerCase :: "string \<Rightarrow> string" where
  "toLowerCase s = map toLowerCase_char s"

text \<open>
  \<^verbatim>\<open>Array.prototype.slice(start, end)\<close> with integer arguments: a negative index
  counts from the end, every index is clamped to the array, and an empty range gives
  the empty array. Nothing is thrown.
\<close>

definition relative_index :: "int \<Rightarrow> int \<Rightarrow> nat" where
  "relative_index len i = (if i < 0 then nat (max (len + i) 0) else nat (min i len))"

definition slice :: "'a list \<Rightarrow> int \<Rightarrow> int \<Rightarrow> 'a list" where
  "slice xs start stop =
     (let len = int (length xs);
          k = relative_index len start;
          final = relative_index len stop
      in take (final - k) (drop k xs))"

text \<open>
  \<^verbatim>\<open>Array.prototype.sort(compare)\<close>: the sort is stable, and \<open>a\<close> stays before
  \<open>b\<close> unless \<open>compare(a, b) > 0\<close>. For a consistent comparator every conforming
  engine returns the list computed here, by stable insertion.
\<close>

fun insert_sorted :: "('a \<Rightarrow> 'a \<Rightarrow> int) \<Rightarrow> 'a \<Rightarrow> 'a list \<Rightarrow> 'a list" where
  "insert_sorted compare x [] = [x]"
| "insert_sorted compare x (y # ys) =
     (if compare x y \<le> 0 then x # y # ys else y # insert_sorted compare x ys)"

definition sort_array :: "('a \<Rightarrow> 'a \<Rightarrow> int) \<Rightarrow> 'a list \<Rightarrow> 'a list" where
  "sort_array compare xs = foldr (insert_sorted compare) xs []"

text \<open>
  \<^verbatim>\<open>String.prototype.localeCompare\<close> is the collation of the host. It is a
  parameter \<open>localeCompare a b\<close> of every function that sorts by name. A comparator
  is consistent when it orders its arguments as a total preorder.
\<close>

definition consistent :: "('a \<Rightarrow> 'a \<Rightarrow> int) \<Rightarrow> bool" where
  "consistent compare \<longleftrightarrow>
     (\<forall>a b. compare a b \<le> 0 \<or> compare b a \<le> 0) \<and>
     (\<forall>a b c. compare a b \<le> 0 \<longrightarrow> compare b c \<le> 0 \<longrightarrow> compare a c \<le> 0)"

text \<open>The comparison of two strings by their code units, one possible collation.\<close>

definition code_unit_compare :: "string \<Rightarrow> string \<Rightarrow> int" where
  "code_unit_compare a b = (if a < b then - 1 else if a = b then 0 else 1)"

section \<open>Values thrown and tool results\<close>

text \<open>
  A thrown value. \<open>Error m\<close> is an \<^verbatim>\<open>Error\<close> object (a \<^verbatim>\<open>TypeError\<close> of the engine
  included) whose \<^verbatim>\<open>message\<close> is the string \<open>m\<close>. \<open>Thrown_value s\<close> is any other
  value that is neither undefined nor null and has no \<^verbatim>\<open>message\<close> property, such
  as a string or a number; \<open>s\<close> is \<^verbatim>\<open>String(value)\<close>. \<open>Thrown_undefined\<close> and
  \<open>Thrown_null\<close> are the two values without properties. A promise that rejects, and
  a function that throws, return \<open>Inl\<close> of the thrown value; \<open>await_then\<close> passes a
  result on and lets a thrown value through, as \<^verbatim>\<open>await\<close> and sequencing do.
\<close>

datatype thrown = Error string | Thrown_value string | Thrown_undefined | Thrown_null

definition await_then :: "thrown + 'a \<Rightarrow> ('a \<Rightarrow> thrown + 'b) \<Rightarrow> thrown + 'b" where
  "await_then p f = (case p of Inl e \<Rightarrow> Inl e | Inr x \<Rightarrow> f x)"

text \<open>
  \<^verbatim>\<open>(error as Error).message\<close>: the read of the property. The cast does nothing at
  run time; on undefined and on null the read throws a \<^verbatim>\<open>TypeError\<close> (its message
  in the wording of V8, the engine of Node).
\<close>

fun message :: "thrown \<Rightarrow> thrown + string option" where
  "message (Error m) = Inr (Some m)"
| "message (Thrown_value s) = Inr None"
| "message Thrown_undefined =
     Inl (Error ''Cannot read properties of undefined (reading 'message')'')"
| "message Thrown_null =
     Inl (Error ''Cannot read properties of null (reading 'message')'')"

text \<open>\<^verbatim>\<open>error instanceof Error ? error.message : String(error)\<close>.\<close>

fun error_text :: "thrown \<Rightarrow> string" where
  "error_text (Error m) = m"
| "error_text (Thrown_value s) = s"
| "error_text Thrown_undefined = ''undefined''"
| "error_text Thrown_null = ''null''"

text \<open>\<^verbatim>\<open>s || d\<close> on an optional string: the empty string and undefined are falsy.\<close>

definition or_else :: "string option \<Rightarrow> string \<Rightarrow> string" where
  "or_else s d = (case s of None \<Rightarrow> d | Some m \<Rightarrow> if m = [] then d else m)"

text \<open>An optional string inside a template literal: undefined prints as its name.\<close>

definition template :: "string option \<Rightarrow> string" where
  "template s = (case s of None \<Rightarrow> ''undefined'' | Some m \<Rightarrow> m)"

text \<open>
  The envelope a handler returns: the content blocks (the handlers build exactly
  one text block) and the optional error flag. The text of a block is either a plain
  string or \<^verbatim>\<open>JSON.stringify\<close> of a value, kept as that value.
\<close>

datatype 'a payload = Plain string | JSON_stringify 'a

record 'a tool_result =
  content :: "'a payload list"
  isError :: "bool option"

text \<open>
  The \<^verbatim>\<open>catch\<close> block of the handlers that read the message through the cast:
  \<^verbatim>\<open>const message = (error as Error).message || fallback\<close>, then the error-flagged
  envelope. The read may throw, and then the handler rejects.
\<close>

definition catch_with_message :: "thrown \<Rightarrow> string \<Rightarrow> thrown + 'a tool_result" where
  "catch_with_message error fallback =
     await_then (message error)
       (\<lambda>m. Inr \<lparr> content = [Plain (or_else m fallback)], isError = Some True \<rparr>)"

section \<open>The tool catalogue\<close>

text \<open>
  \<^verbatim>\<open>REPO_TOOLS\<close> of \<^verbatim>\<open>src/tools/repos.ts\<close>: an object whose properties hold
  the tool names.
\<close>

record REPO_TOOLS_object =
  get_azure_devops_repositories :: string
  get_azure_devops_pull_request_by_id :: string
  get_azure_devops_changes_by_commit :: string
  get_azure_devops_item_content_by_commit :: string
  get_azure_devops_content_by_objectid :: string
  list_azure_devops_pull_request_threads :: string
  list_azure_devops_pull_request_comments_by_thread :: string
  list_pull_requests_by_repo :: string
  list_pull_requests_by_project :: string
  list_branches_by_repo :: string
  list_my_branches_by_repo :: string
  get_branch_by_name :: string
  create_pull_request :: string
  update_pull_request_status :: string
  update_pull_request_reviewers :: string
  reply_to_comment :: string
  resolve_comment :: string
  search_commits :: string
  list_pull_requests_by_commits :: string

definition REPO_TOOLS :: REPO_TOOLS_object where
  "REPO_TOOLS = \<lparr>
     get_azure_devops_repositories = ''get_azure_devops_repositories'',
     get_azure_devops_pull_request_by_id = ''get_azure_devops_pull_request_by_id'',
     get_azure_devops_changes_by_commit = ''get_azure_devops_changes_by_commit'',
     get_azure_devops_item_content_by_commit = ''get_azure_devops_item_content_by_commit'',
     get_azure_devops_content_by_objectid = ''get_azure_devops_content_by_objectid'',
     list_azure_devops_pull_request_threads = ''list_azure_devops_pull_request_threads'',
     list_azure_devops_pull_request_comments_by_thread =
       ''list_azure_devops_pull_request_comments_by_thread'',
     list_pull_requests_by_repo = ''repo_list_pull_requests_by_repo'',
     list_pull_requests_by_project = ''repo_list_pull_requests_by_project'',
     list_branches_by_repo = ''repo_list_branches_by_repo'',
     list_my_branches_by_repo = ''repo_list_my_branches_by_repo'',
     get_branch_by_name = ''repo_get_branch_by_name'',
     create_pull_request = ''repo_create_pull_request'',
     update_pull_request_status = ''repo_update_pull_request_status'',
     update_pull_request_reviewers = ''repo_update_pull_request_reviewers'',
     reply_to_comment = ''repo_reply_to_comment'',
     resolve_comment = ''repo_resolve_comment'',
     search_commits = ''repo_search_commits'',
     list_pull_requests_by_commits = ''repo_list_pull_requests_by_commits'' \<rparr>"

text \<open>\<^verbatim>\<open>Object.values(REPO_TOOLS)\<close>: the property values in the order of declaration.\<close>

definition REPO_TOOLS_values :: "REPO_TOOLS_object \<Rightarrow> string list" where
  "REPO_TOOLS_values t =
     [get_azure_devops_repositories t,
      get_azure_devops_pull_request_by_id t,
      get_azure_devops_changes_by_commit t,
      get_azure_devops_item_content_by_commit t,
      get_azure_devops_content_by_objectid t,
      list_azure_devops_pull_request_threads t,
      list_azure_devops_pull_request_comments_by_thread t,
      list_pull_requests_by_repo t,
      list_pull_requests_by_project t,
      list_branches_by_repo t,
      list_my_branches_by_repo t,
      get_branch_by_name t,
      create_pull_request t,
      update_pull_request_status t,
      update_pull_request_reviewers t,
      reply_to_comment t,
      resolve_comment t,
      search_commits t,
      list_pull_requests_by_commits t]"

text \<open>\<^verbatim>\<open>SEARCH_TOOLS\<close> of \<^verbatim>\<open>src/tools/search.ts\<close>.\<close>

record SEARCH_TOOLS_object =
  search_azure_devops_code :: string
  search_azure_devops_wiki :: string
  search_azure_devops_workitem :: string

definition SEARCH_TOOLS :: SEARCH_TOOLS_object where
  "SEARCH_TOOLS = \<lparr>
     search_azure_devops_code = ''search_azure_devops_code'',
     search_azure_devops_wiki = ''search_azure_devops_wiki'',
     search_azure_devops_workitem = ''search_azure_devops_workitem'' \<rparr>"

definition SEARCH_TOOLS_values :: "SEARCH_TOOLS_object \<Rightarrow> string list" where
  "SEARCH_TOOLS_values t =
     [search_azure_devops_code t, search_azure_devops_wiki t, search_azure_devops_workitem t]"

text \<open>
  The other seven tables are declared in files that are not among the sources
  (\<^verbatim>\<open>tools/core.ts\<close>, \<^verbatim>\<open>work.ts\<close>, \<^verbatim>\<open>builds.ts\<close>, \<^verbatim>\<open>workitems.ts\<close>,
  \<^verbatim>\<open>releases.ts\<close>, \<^verbatim>\<open>wiki.ts\<close>, \<^verbatim>\<open>testplans.ts\<close>), so they are parameters,
  collected in a record. \<^verbatim>\<open>tools.ts\<close> reads two properties of \<^verbatim>\<open>CORE_TOOLS\<close>;
  its remaining values are \<open>core_rest\<close>. Of the other six only
  \<^verbatim>\<open>Object.values\<close> is used, so each is given by the list of its values.
\<close>

record CORE_TOOLS_object =
  list_azure_devops_projects :: string
  get_azure_devops_identity_ids :: string
  core_rest :: "string list"

definition CORE_TOOLS_values :: "CORE_TOOLS_object \<Rightarrow> string list" where
  "CORE_TOOLS_values t =
     list_azure_devops_projects t # get_azure_devops_identity_ids t # core_rest t"

record catalogue =
  CORE_TOOLS :: CORE_TOOLS_object
  WORK_TOOLS :: "string list"
  BUILD_TOOLS :: "string list"
  WORKITEM_TOOLS :: "string list"
  RELEASE_TOOLS :: "string list"
  WIKI_TOOLS :: "string list"
  Test_Plan_Tools :: "string list"

section \<open>The enablement gate (\<^verbatim>\<open>src/tools.ts\<close>, the allow-list)\<close>

text \<open>
  \<^verbatim>\<open>TOOLS_CATEGORY_MAP\<close>, in the order of its entries; each category object is
  given by its \<^verbatim>\<open>Object.values\<close>, the only way the gate reads it.
\<close>

definition TOOLS_CATEGORY_MAP :: "catalogue \<Rightarrow> (string \<times> string list) list" where
  "TOOLS_CATEGORY_MAP cat =
     [(''category_core'', CORE_TOOLS_values (CORE_TOOLS cat)),
      (''category_work'', WORK_TOOLS cat),
      (''category_build'', BUILD_TOOLS cat),
      (''category_repo'', REPO_TOOLS_values REPO_TOOLS),
      (''category_workitem'', WORKITEM_TOOLS cat),
      (''category_release'', RELEASE_TOOLS cat),
      (''category_wiki'', WIKI_TOOLS cat),
      (''category_testplan'', Test_Plan_Tools cat),
      (''category_search'', SEARCH_TOOLS_values SEARCH_TOOLS)]"

definition DEFAULT_ENABLED_TOOLS :: "catalogue \<Rightarrow> string list" where
  "DEFAULT_ENABLED_TOOLS cat =
     [list_azure_devops_projects (CORE_TOOLS cat),
      get_azure_devops_identity_ids (CORE_TOOLS cat),
      search_azure_devops_code SEARCH_TOOLS,
      get_azure_devops_repositories REPO_TOOLS,
      get_azure_devops_pull_request_by_id REPO_TOOLS,
      get_azure_devops_changes_by_commit REPO_TOOLS,
      get_azure_devops_content_by_objectid REPO_TOOLS,
      get_azure_devops_item_content_by_commit REPO_TOOLS,
      list_azure_devops_pull_request_threads REPO_TOOLS,
      list_azure_devops_pull_request_comments_by_thread REPO_TOOLS]"

text \<open>
  The callback of \<^verbatim>\<open>.map\<close> in \<^verbatim>\<open>configureAllTools\<close>: a token is trimmed; the
  name of a category stands for the values of the category, any other token for
  itself.
\<close>

definition resolve_token :: "catalogue \<Rightarrow> string \<Rightarrow> string list" where
  "resolve_token cat tool =
     (let tool = trim tool in
      case map_of (TOOLS_CATEGORY_MAP cat) tool of
        Some category \<Rightarrow> category
      | None \<Rightarrow> [tool])"

text \<open>
  \<^verbatim>\<open>process.env.ADO_MCP_ENABLED_TOOLS || ""\<close>: the variable is a string or unset
  (\<open>None\<close>); unset and empty both give the empty string.
\<close>

definition env_or_empty :: "string option \<Rightarrow> string" where
  "env_or_empty env = (case env of None \<Rightarrow> [] | Some s \<Rightarrow> s)"

text \<open>
  The set \<^verbatim>\<open>disabledTools\<close> that \<^verbatim>\<open>configureAllTools\<close> computes: every tool of
  every category, from which \<^verbatim>\<open>forEach\<close> deletes the default tools and the
  resolved tokens one by one.
\<close>

definition all_tools :: "catalogue \<Rightarrow> string list" where
  "all_tools cat = concat (map snd (TOOLS_CATEGORY_MAP cat))"

definition enabled_names :: "catalogue \<Rightarrow> string option \<Rightarrow> string list" where
  "enabled_names cat env =
     DEFAULT_ENABLED_TOOLS cat @
     concat (map (resolve_token cat) (split CHR '','' (env_or_empty env)))"

definition disabledTools :: "catalogue \<Rightarrow> string option \<Rightarrow> string set" where
  "disabledTools cat env =
     foldl (\<lambda>disabled tool. disabled - {tool}) (set (all_tools cat)) (enabled_names cat env)"

section \<open>The registrars\<close>

text \<open>
  The server is the list of the tool names registered so far.
  \<^verbatim>\<open>if (!disabledTools.has(name)) server.tool(name, ...)\<close> appends the name.
\<close>

definition register_unless_disabled :: "string set \<Rightarrow> string \<Rightarrow> string list \<Rightarrow> string list" where
  "register_unless_disabled disabled name server =
     (if name \<notin> disabled then server @ [name] else server)"

text \<open>\<^verbatim>\<open>configureRepoTools\<close>, the tools in the order of its \<^verbatim>\<open>if\<close> statements.\<close>

definition configureRepoTools :: "string list \<Rightarrow> string set \<Rightarrow> string list" where
  "configureRepoTools server disabled =
     foldl (\<lambda>srv name. register_unless_disabled disabled name srv) server
       [get_azure_devops_repositories REPO_TOOLS,
        get_azure_devops_pull_request_by_id REPO_TOOLS,
        get_azure_devops_changes_by_commit REPO_TOOLS,
        get_azure_devops_item_content_by_commit REPO_TOOLS,
        get_azure_devops_content_by_objectid REPO_TOOLS,
        list_azure_devops_pull_request_threads REPO_TOOLS,
        list_azure_devops_pull_request_comments_by_thread REPO_TOOLS,
        create_pull_request REPO_TOOLS,
        update_pull_request_status REPO_TOOLS,
        update_pull_request_reviewers REPO_TOOLS,
        list_pull_requests_by_repo REPO_TOOLS,
        list_pull_requests_by_project REPO_TOOLS,
        list_branches_by_repo REPO_TOOLS,
        list_my_branches_by_repo REPO_TOOLS,
        get_branch_by_name REPO_TOOLS,
        reply_to_comment REPO_TOOLS,
        resolve_comment REPO_TOOLS,
        search_commits REPO_TOOLS,
        list_pull_requests_by_commits REPO_TOOLS]"

text \<open>
  \<^verbatim>\<open>configureSearchTools(server, adoManager, disabledTools)\<close> of
  \<^verbatim>\<open>src/tools/search.ts\<close>. Its caller passes other values than a set in the third
  position (see \<open>configureAllTools\<close> below), so the parameter is a value of one of
  four kinds: a set of strings, a function, an object that is no set (the client
  manager of \<^verbatim>\<open>src/index.ts\<close>), or undefined. \<^verbatim>\<open>disabledTools.has\<close> is the
  membership test of a set; a function and such an object have no property
  \<^verbatim>\<open>has\<close>, so the call throws a \<^verbatim>\<open>TypeError\<close>, and so does the read of the
  property on undefined (the messages in the wording of V8). The test throws at the first tool or never,
  so a throw leaves the server as it was. (The parameter carries a prime: the plain
  name is the set that the gate computes.)
\<close>

datatype argument = Set_value "string set" | Function_value | Object_value | Undefined_value

definition has :: "argument \<Rightarrow> string \<Rightarrow> thrown + bool" where
  "has disabledTools' name =
     (case disabledTools' of
        Set_value s \<Rightarrow> Inr (name \<in> s)
      | Function_value \<Rightarrow> Inl (Error ''disabledTools.has is not a function'')
      | Object_value \<Rightarrow> Inl (Error ''disabledTools.has is not a function'')
      | Undefined_value \<Rightarrow> Inl (Error ''Cannot read properties of undefined (reading 'has')''))"

definition register_unless_has :: "argument \<Rightarrow> string \<Rightarrow> string list \<Rightarrow> thrown + string list" where
  "register_unless_has disabledTools' name server =
     await_then (has disabledTools' name)
       (\<lambda>disabled. Inr (if \<not> disabled then server @ [name] else server))"

definition configureSearchTools :: "string list \<Rightarrow> argument \<Rightarrow> argument \<Rightarrow> thrown + string list" where
  "configureSearchTools server adoManager disabledTools' =
     await_then (register_unless_has disabledTools' (search_azure_devops_code SEARCH_TOOLS) server)
       (\<lambda>server.
     await_then (register_unless_has disabledTools' (search_azure_devops_wiki SEARCH_TOOLS) server)
       (\<lambda>server.
     register_unless_has disabledTools' (search_azure_devops_workitem SEARCH_TOOLS) server))"

text \<open>
  Modelled from the spec: the registrars of the seven families whose files are not
  among the sources (\<^verbatim>\<open>configureCoreTools\<close>, \<^verbatim>\<open>configureWorkTools\<close>,
  \<^verbatim>\<open>configureBuildTools\<close>, \<^verbatim>\<open>configureWorkItemTools\<close>,
  \<^verbatim>\<open>configureReleaseTools\<close>, \<^verbatim>\<open>configureWikiTools\<close>,
  \<^verbatim>\<open>configureTestPlanTools\<close>). By section 4.2 of the specification, a registrar
  registers every tool of its family whose name is absent from the disabled set and
  skips the others.
\<close>

definition configureFamilyTools :: "string list \<Rightarrow> string list \<Rightarrow> string set \<Rightarrow> string list" where
  "configureFamilyTools family server disabled =
     foldl (\<lambda>srv name. register_unless_disabled disabled name srv) server family"

text \<open>
  \<^verbatim>\<open>configureAllTools(server, tokenProvider, connectionProvider, userAgentProvider)\<close>:
  the disabled set is computed once, then the nine registrars run in the order of
  the source. The first eight receive the disabled set as their last argument. The
  last call is
  \<^verbatim>\<open>configureSearchTools(server, tokenProvider, connectionProvider, userAgentProvider, disabledTools)\<close>:
  five arguments for the three parameters of the registrar, so its \<^verbatim>\<open>adoManager\<close>
  is the token provider, its \<^verbatim>\<open>disabledTools\<close> is the connection provider, and the
  last two arguments, the disabled set among them, are dropped. The providers are
  functions by their declared type; \<^verbatim>\<open>src/index.ts\<close> calls
  \<^verbatim>\<open>configureAllTools(server, azureClientManager)\<close>, which passes an object as
  the token provider and leaves the connection provider undefined. The result is the list of the names registered when the
  function settles, and how it settles: fulfilled, or rejected with a thrown value.
\<close>

definition configureAllTools ::
  "catalogue \<Rightarrow> argument \<Rightarrow> argument \<Rightarrow> string option \<Rightarrow> string list \<times> (thrown + unit)" where
  "configureAllTools cat tokenProvider connectionProvider env =
     (let disabled = disabledTools cat env;
          server = [];
          server = configureFamilyTools (CORE_TOOLS_values (CORE_TOOLS cat)) server disabled;
          server = configureFamilyTools (WORK_TOOLS cat) server disabled;
          server = configureFamilyTools (BUILD_TOOLS cat) server disabled;
          server = configureRepoTools server disabled;
          server = configureFamilyTools (WORKITEM_TOOLS cat) server disabled;
          server = configureFamilyTools (RELEASE_TOOLS cat) server disabled;
          server = configureFamilyTools (WIKI_TOOLS cat) server disabled;
          server = configureFamilyTools (Test_Plan_Tools cat) server disabled
      in case configureSearchTools server tokenProvider connectionProvider of
           Inl e \<Rightarrow> (server, Inl e)
         | Inr server \<Rightarrow> (server, Inr ()))"

text \<open>
  A sample of the seven missing tables, for concrete runs: the core family holds its
  two default tools and one more, the work and wiki families one tool each.
\<close>

definition sample_catalogue :: catalogue where
  "sample_catalogue = \<lparr>
     CORE_TOOLS = \<lparr> list_azure_devops_projects = ''list_azure_devops_projects'',
                    get_azure_devops_identity_ids = ''get_azure_devops_identity_ids'',
                    core_rest = [''core_list_project_teams''] \<rparr>,
     WORK_TOOLS = [''work_list_team_iterations''],
     BUILD_TOOLS = [],
     WORKITEM_TOOLS = [],
     RELEASE_TOOLS = [],
     WIKI_TOOLS = [''wiki_list_wikis''],
     Test_Plan_Tools = [] \<rparr>"

text \<open>
  The three sets of the allow-list rule, read off the override string: its trimmed
  tokens, the tokens that are tool names (and not category names), and the members
  of the categories it names.
\<close>

definition override_tokens :: "string option \<Rightarrow> string list" where
  "override_tokens env = map trim (split CHR '','' (env_or_empty env))"

definition named_tools :: "catalogue \<Rightarrow> string option \<Rightarrow> string set" where
  "named_tools cat env =
     set (filter (\<lambda>t. t \<in> set (all_tools cat) \<and> map_of (TOOLS_CATEGORY_MAP cat) t = None)
            (override_tokens env))"

definition named_category_tools :: "catalogue \<Rightarrow> string option \<Rightarrow> string set" where
  "named_category_tools cat env =
     set (concat (map (\<lambda>c. case map_of (TOOLS_CATEGORY_MAP cat) c of
                              Some category \<Rightarrow> category
                            | None \<Rightarrow> [])
                    (override_tokens env)))"

section \<open>Upstream entities and their projections (\<^verbatim>\<open>src/tools/repos.ts\<close>)\<close>

text \<open>
  The upstream interfaces are declared in the package \<^verbatim>\<open>azure-devops-node-api\<close>.
  Each is a record of the properties that the source reads; every property is
  optional. Numbers are integers, dates are kept as strings.
\<close>

record IdentityRef =
  id :: "string option"
  displayName :: "string option"
  uniqueName :: "string option"

record IdentityRefWithVote = IdentityRef +
  vote :: "int option"
  hasDeclined :: "bool option"
  isRequired :: "bool option"

record TeamProjectReference =
  id :: "string option"
  description :: "string option"
  name :: "string option"

record GitRepository =
  id :: "string option"
  defaultBranch :: "string option"
  name :: "string option"
  isFork :: "bool option"
  project :: "TeamProjectReference option"

record RepositoryResult =
  id :: "string option"
  defaultBranch :: "string option"
  name :: "string option"
  isFork :: "bool option"
  project :: "TeamProjectReference option"

record GitUserDate =
  email :: "string option"
  date :: "string option"

record GitCommitRef =
  commitId :: "string option"
  comment :: "string option"
  commentTruncated :: "bool option"
  author :: "GitUserDate option"
  committer :: "GitUserDate option"

record GitItem =
  gitObjectType :: "int option"
  objectId :: "string option"
  originalObjectId :: "string option"
  isFolder :: "bool option"
  isSymLink :: "bool option"
  path :: "string option"

record GitChange =
  changeId :: "int option"
  originalPath :: "string option"
  changeType :: "int option"
  item :: "GitItem option"

record GitChangeResult =
  changeId :: "int option"
  originalPath :: "string option"
  changeType :: "string option"
  item :: "GitItem option"

record GitCommitDiffs =
  allChangesIncluded :: "bool option"
  baseCommit :: "string option"
  commonCommit :: "string option"
  targetCommit :: "string option"
  changes :: "GitChange list option"

record GitCommitDiffsResult =
  allChangesIncluded :: "bool option"
  baseCommit :: "string option"
  commonCommit :: "string option"
  targetCommit :: "string option"
  changes :: "GitChangeResult list option"

record ResourceRef =
  id :: "string option"
  url :: "string option"

record GitPullRequest =
  closedDate :: "string option"
  creationDate :: "string option"
  description :: "string option"
  pullRequestId :: "int option"
  sourceRefName :: "string option"
  status :: "int option"
  targetRefName :: "string option"
  title :: "string option"
  workItemRefs :: "ResourceRef list option"
  isDraft :: "bool option"
  closedBy :: "IdentityRef option"
  createdBy :: "IdentityRef option"
  reviewers :: "IdentityRefWithVote list option"
  commits :: "GitCommitRef list option"

record PullRequestResult =
  closedDate :: "string option"
  creationDate :: "string option"
  description :: "string option"
  pullRequestId :: "int option"
  sourceRefName :: "string option"
  status :: "int option"
  targetRefName :: "string option"
  title :: "string option"
  workItemRefs :: "ResourceRef list option"
  isDraft :: "bool option"
  closedBy :: "IdentityRef option"
  createdBy :: "IdentityRef option"
  reviewers :: "IdentityRefWithVote list option"
  commits :: "GitCommitRef list option"
  pullRequestChanges :: "GitCommitDiffsResult option"

record GitRef =
  name :: "string option"
  objectId :: "string option"

record GitPullRequestCommentThread =
  id :: "int option"
  status :: "int option"

text \<open>
  The enums of the package, with the members and values of its declaration file
  (\<^verbatim>\<open>interfaces/GitInterfaces\<close>). \<^verbatim>\<open>PullRequestStatus\<close> and
  \<^verbatim>\<open>GitVersionType\<close> are read by member only, so each is a datatype;
  \<open>PullRequestStatus_valueOf\<close> gives the number of a member.
\<close>

datatype PullRequestStatus = NotSet | Active | Abandoned | Completed | All_statuses

fun PullRequestStatus_valueOf :: "PullRequestStatus \<Rightarrow> int" where
  "PullRequestStatus_valueOf NotSet = 0"
| "PullRequestStatus_valueOf Active = 1"
| "PullRequestStatus_valueOf Abandoned = 2"
| "PullRequestStatus_valueOf Completed = 3"
| "PullRequestStatus_valueOf All_statuses = 4"

datatype GitVersionType = Branch | Tag | Commit

text \<open>
  \<^verbatim>\<open>VersionControlChangeType\<close> is read by number. A numeric TypeScript enum is
  an object that maps each member name to its value and each value back to its name;
  \<open>enum_name\<close> is the lookup \<^verbatim>\<open>E[n]\<close> of a number, undefined when no member has
  that value.
\<close>

definition VersionControlChangeType :: "(string \<times> int) list" where
  "VersionControlChangeType =
     [(''None'', 0), (''Add'', 1), (''Edit'', 2), (''Encoding'', 4), (''Rename'', 8),
      (''Delete'', 16), (''Undelete'', 32), (''Branch'', 64), (''Merge'', 128),
      (''Lock'', 256), (''Rollback'', 512), (''SourceRename'', 1024),
      (''TargetRename'', 2048), (''Property'', 4096), (''All'', 8191)]"

definition enum_name :: "(string \<times> int) list \<Rightarrow> int \<Rightarrow> string option" where
  "enum_name E n = map_of (map (\<lambda>(member, v). (v, member)) (rev E)) n"

text \<open>
  The projections. \<^verbatim>\<open>x && f(x)\<close> and \<^verbatim>\<open>x ? x.map(f) : undefined\<close> on an
  optional object or array are \<open>map_option\<close>.
\<close>

definition toIdentityResult :: "'a IdentityRef_scheme \<Rightarrow> IdentityRef" where
  "toIdentityResult identityRef = \<lparr>
     IdentityRef.id = IdentityRef.id identityRef,
     displayName = displayName identityRef,
     uniqueName = uniqueName identityRef \<rparr>"

definition toIdentityWithVoteResult :: "'a IdentityRefWithVote_scheme \<Rightarrow> IdentityRefWithVote" where
  "toIdentityWithVoteResult identityRef = \<lparr>
     IdentityRef.id = IdentityRef.id identityRef,
     displayName = displayName identityRef,
     uniqueName = uniqueName identityRef,
     vote = vote identityRef,
     hasDeclined = hasDeclined identityRef,
     isRequired = isRequired identityRef \<rparr>"

definition toProjectResult :: "'a TeamProjectReference_scheme \<Rightarrow> TeamProjectReference" where
  "toProjectResult projectRef = \<lparr>
     TeamProjectReference.id = TeamProjectReference.id projectRef,
     description = TeamProjectReference.description projectRef,
     name = TeamProjectReference.name projectRef \<rparr>"

definition toRepositoryResult :: "'a GitRepository_scheme \<Rightarrow> RepositoryResult" where
  "toRepositoryResult repo = \<lparr>
     RepositoryResult.id = GitRepository.id repo,
     defaultBranch = GitRepository.defaultBranch repo,
     name = GitRepository.name repo,
     isFork = GitRepository.isFork repo,
     project = map_option toProjectResult (GitRepository.project repo) \<rparr>"

definition toGitUserDateResult :: "'a GitUserDate_scheme \<Rightarrow> GitUserDate" where
  "toGitUserDateResult user = \<lparr> email = email user, date = date user \<rparr>"

definition toGitCommitResult :: "'a GitCommitRef_scheme \<Rightarrow> GitCommitRef" where
  "toGitCommitResult commit = \<lparr>
     commitId = commitId commit,
     comment = comment commit,
     commentTruncated = commentTruncated commit,
     author = map_option toGitUserDateResult (author commit),
     committer = map_option toGitUserDateResult (committer commit) \<rparr>"

definition toPullRequestResult :: "'a GitPullRequest_scheme \<Rightarrow> PullRequestResult" where
  "toPullRequestResult pr = \<lparr>
     closedDate = GitPullRequest.closedDate pr,
     creationDate = GitPullRequest.creationDate pr,
     description = GitPullRequest.description pr,
     pullRequestId = GitPullRequest.pullRequestId pr,
     sourceRefName = GitPullRequest.sourceRefName pr,
     status = GitPullRequest.status pr,
     targetRefName = GitPullRequest.targetRefName pr,
     title = GitPullRequest.title pr,
     workItemRefs = GitPullRequest.workItemRefs pr,
     isDraft = None,
     closedBy = map_option toIdentityResult (GitPullRequest.closedBy pr),
     createdBy = map_option toIdentityResult (GitPullRequest.createdBy pr),
     reviewers = map_option (map toIdentityWithVoteResult) (GitPullRequest.reviewers pr),
     commits = map_option (map toGitCommitResult) (GitPullRequest.commits pr),
     pullRequestChanges = None \<rparr>"

definition toGitItemResult :: "'a GitItem_scheme \<Rightarrow> GitItem" where
  "toGitItemResult gitItem = \<lparr>
     gitObjectType = gitObjectType gitItem,
     objectId = GitItem.objectId gitItem,
     originalObjectId = originalObjectId gitItem,
     isFolder = isFolder gitItem,
     isSymLink = isSymLink gitItem,
     path = path gitItem \<rparr>"

text \<open>
  \<^verbatim>\<open>change.changeType ? VersionControlChangeType[change.changeType] : undefined\<close>:
  the condition is the truthiness of an optional number, false for undefined and
  for 0.
\<close>

definition toGitChangeResult :: "'a GitChange_scheme \<Rightarrow> GitChangeResult" where
  "toGitChangeResult change = \<lparr>
     changeId = GitChange.changeId change,
     originalPath = GitChange.originalPath change,
     changeType =
       (case GitChange.changeType change of
          None \<Rightarrow> None
        | Some code \<Rightarrow> if code \<noteq> 0 then enum_name VersionControlChangeType code else None),
     item = map_option toGitItemResult (GitChange.item change) \<rparr>"

definition toGitCommitDiffsResult :: "'a GitCommitDiffs_scheme \<Rightarrow> GitCommitDiffsResult" where
  "toGitCommitDiffsResult commitDiffs = \<lparr>
     allChangesIncluded = GitCommitDiffs.allChangesIncluded commitDiffs,
     baseCommit = GitCommitDiffs.baseCommit commitDiffs,
     commonCommit = GitCommitDiffs.commonCommit commitDiffs,
     targetCommit = GitCommitDiffs.targetCommit commitDiffs,
     changes = map_option (map toGitChangeResult) (GitCommitDiffs.changes commitDiffs) \<rparr>"

section \<open>Branch names and pull-request status\<close>

text \<open>
  \<^verbatim>\<open>branchesFilterOutIrrelevantProperties\<close>. The optional chain gives undefined for
  an undefined array; \<^verbatim>\<open>flatMap\<close> keeps the truthy names, that is the defined and
  non-empty ones.
\<close>

definition branchesFilterOutIrrelevantProperties ::
  "(string \<Rightarrow> string \<Rightarrow> int) \<Rightarrow> 'a GitRef_scheme list option \<Rightarrow> int \<Rightarrow> string list option" where
  "branchesFilterOutIrrelevantProperties localeCompare branches top' =
     map_option
       (\<lambda>branches.
          slice
            (sort_array (\<lambda>a b. localeCompare b a)
               (map (\<lambda>branch. replace branch ''refs/heads/'' [])
                  (filter (\<lambda>branch. startsWith branch ''refs/heads/'')
                     (concat (map (\<lambda>branch. case GitRef.name branch of
                                                None \<Rightarrow> []
                                              | Some n \<Rightarrow> if n \<noteq> [] then [n] else [])
                                branches)))))
            0 top')
       branches"

text \<open>
  The branch listing in the words of the specification: the names under the
  namespace \<^verbatim>\<open>refs/heads/\<close>, without that prefix, in the order of the input.
\<close>

definition branch_names :: "'a GitRef_scheme list \<Rightarrow> string list" where
  "branch_names branches =
     concat (map (\<lambda>branch. case GitRef.name branch of
                              None \<Rightarrow> []
                            | Some n \<Rightarrow> if take 11 n = ''refs/heads/'' then [drop 11 n] else [])
               branches)"

definition pullRequestStatusStringToInt :: "string \<Rightarrow> thrown + int" where
  "pullRequestStatusStringToInt s =
     (if s = ''abandoned'' then Inr (PullRequestStatus_valueOf Abandoned)
      else if s = ''active'' then Inr (PullRequestStatus_valueOf Active)
      else if s = ''all'' then Inr (PullRequestStatus_valueOf All_statuses)
      else if s = ''completed'' then Inr (PullRequestStatus_valueOf Completed)
      else if s = ''notSet'' then Inr (PullRequestStatus_valueOf NotSet)
      else Inl (Error (''Unknown pull request status: '' @ s)))"

section \<open>The upstream client\<close>

text \<open>
  The Git client of the package, as far as the handlers below call it: each method
  is a function from its arguments to the outcome of the awaited call, a thrown
  value or the result, which may be undefined. Arguments that the source always
  passes as undefined are left out; \<open>getRefs\<close> keeps \<^verbatim>\<open>includeMyBranches\<close>.
  \<open>connectionProvider\<close> is the outcome of \<^verbatim>\<open>await connectionProvider()\<close>, a
  connection; a connection is the outcome of its \<^verbatim>\<open>getGitApi()\<close>.

  The search criteria are the object literals that the handlers build; the fields
  that share their name with a parameter of a handler carry the prefix
  \<open>criteria_\<close>.
\<close>

record GitVersionDescriptor =
  version :: "string option"
  versionType :: GitVersionType

record Comment =
  id :: "int option"
  parentCommentId :: "int option"

record GitPullRequestSearchCriteria =
  criteria_status :: int
  criteria_repositoryId :: "string option"
  creatorId :: "string option"
  reviewerId :: "string option"

record GitQueryCommitsCriteria =
  fromCommitId :: "string option"
  toCommitId :: "string option"
  criteria_includeLinks :: bool
  criteria_includeWorkItems :: bool
  itemVersion :: "GitVersionDescriptor option"

text \<open>
  The changes of a commit, as far as \<^verbatim>\<open>toGitCommitChangesResult\<close> reads them, and
  that projection.
\<close>

record GitCommitChanges =
  changes :: "GitChange list option"

record GitCommitChangesResult =
  changes :: "GitChangeResult list option"

definition toGitCommitChangesResult :: "'a GitCommitChanges_scheme \<Rightarrow> GitCommitChangesResult" where
  "toGitCommitChangesResult commitChanges = \<lparr>
     GitCommitChangesResult.changes =
       map_option (map toGitChangeResult) (GitCommitChanges.changes commitChanges) \<rparr>"

text \<open>
  The query of \<^verbatim>\<open>repo_list_pull_requests_by_commits\<close> and its answer: the members
  of \<^verbatim>\<open>GitPullRequestQueryType\<close> (two of them share their name with a member of
  another enumeration, hence the prefix), a query input, and the query object, whose
  \<open>results\<close> hold, for each input, the pull requests found for each commit.
\<close>

datatype GitPullRequestQueryType = QueryType_NotSet | QueryType_LastMergeCommit | QueryType_Commit

record GitPullRequestQueryInput =
  items :: "string list option"
  queryInput_type :: "GitPullRequestQueryType option"

record GitPullRequestQuery =
  queries :: "GitPullRequestQueryInput list option"
  results :: "(string \<times> GitPullRequest list) list list option"

record GitApi =
  getRepositories :: "string \<Rightarrow> thrown + GitRepository list option"
  getPullRequest :: "string \<Rightarrow> int \<Rightarrow> thrown + GitPullRequest option"
  getPullRequestCommits :: "string \<Rightarrow> int \<Rightarrow> thrown + GitCommitRef list option"
  getCommitDiffs :: "string \<Rightarrow> bool \<Rightarrow> int \<Rightarrow> GitVersionDescriptor \<Rightarrow> GitVersionDescriptor
                       \<Rightarrow> thrown + GitCommitDiffs option"
  getRefs :: "string \<Rightarrow> bool \<Rightarrow> thrown + GitRef list option"
  getThreads :: "string \<Rightarrow> int \<Rightarrow> string option \<Rightarrow> int option \<Rightarrow> int option
                   \<Rightarrow> thrown + GitPullRequestCommentThread list option"
  getComments :: "string \<Rightarrow> int \<Rightarrow> int \<Rightarrow> string option \<Rightarrow> thrown + Comment list option"
  getPullRequests :: "string \<Rightarrow> GitPullRequestSearchCriteria \<Rightarrow> int \<Rightarrow> int
                        \<Rightarrow> thrown + GitPullRequest list option"
  getPullRequestsByProject :: "string \<Rightarrow> GitPullRequestSearchCriteria \<Rightarrow> int \<Rightarrow> int
                                 \<Rightarrow> thrown + GitPullRequest list option"
  getCommits :: "string \<Rightarrow> GitQueryCommitsCriteria \<Rightarrow> string \<Rightarrow> int \<Rightarrow> int
                   \<Rightarrow> thrown + GitCommitRef list option"
  getPullRequestQuery :: "GitPullRequestQuery \<Rightarrow> string \<Rightarrow> string
                            \<Rightarrow> thrown + GitPullRequestQuery option"
  getChanges :: "string \<Rightarrow> string \<Rightarrow> thrown + GitCommitChanges option"

type_synonym WebApi = "thrown + GitApi"

section \<open>Fetching repositories and pull requests\<close>

text \<open>
  The callback of \<^verbatim>\<open>repositories?.filter\<close> in \<^verbatim>\<open>getRepositoriesResult\<close>, for the
  lower-cased filter string \<open>f\<close>.
\<close>

definition repository_matches :: "string \<Rightarrow> 'a GitRepository_scheme \<Rightarrow> bool" where
  "repository_matches f repo \<longleftrightarrow>
     (case GitRepository.name repo of
        None \<Rightarrow> False
      | Some n \<Rightarrow> includes_string (toLowerCase n) f)
     \<or> GitRepository.id repo = Some f"

definition getRepositoriesResult ::
  "(thrown + WebApi) \<Rightarrow> string \<Rightarrow> string option \<Rightarrow> thrown + RepositoryResult list" where
  "getRepositoriesResult connectionProvider project' repositoryNameOrId =
     await_then connectionProvider (\<lambda>connection.
     await_then connection (\<lambda>gitApi.
     await_then (getRepositories gitApi project') (\<lambda>repositories.
       let filter_string = map_option toLowerCase repositoryNameOrId;
           repos =
             (case filter_string of
                None \<Rightarrow> repositories
              | Some f \<Rightarrow>
                  if f \<noteq> [] then map_option (filter (repository_matches f)) repositories
                  else repositories)
       in case repos of
            None \<Rightarrow>
              Inl (Error (''Repository '' @ template repositoryNameOrId @
                          '' not found in project '' @ project'))
          | Some [] \<Rightarrow>
              Inl (Error (''Repository '' @ template repositoryNameOrId @
                          '' not found in project '' @ project'))
          | Some (r # rs) \<Rightarrow> Inr (map toRepositoryResult (r # rs)))))"

definition getPullRequestResult ::
  "(thrown + WebApi) \<Rightarrow> string \<Rightarrow> int \<Rightarrow> thrown + PullRequestResult" where
  "getPullRequestResult connectionProvider repositoryId pullRequestId' =
     await_then connectionProvider (\<lambda>connection.
     await_then connection (\<lambda>gitApi.
     await_then (getPullRequest gitApi repositoryId pullRequestId') (\<lambda>pullRequest.
       case pullRequest of
         None \<Rightarrow> Inl (Error ''Pull request not found.'')
       | Some pullRequest \<Rightarrow>
           let prResult = toPullRequestResult pullRequest in
           await_then (getPullRequestCommits gitApi repositoryId pullRequestId') (\<lambda>commits.
             let prResult = prResult \<lparr> PullRequestResult.commits :=
                   Some (case commits of
                           None \<Rightarrow> []
                         | Some cs \<Rightarrow> map toGitCommitResult cs) \<rparr>
             in case commits of
                  Some (c # cs) \<Rightarrow>
                    let latestCommitId = commitId c;
                        targetBranch =
                          or_else (map_option (\<lambda>r. replace r ''refs/heads/'' [])
                                     (GitPullRequest.targetRefName pullRequest)) ''main'';
                        baseVersionDescriptor =
                          \<lparr> version = Some targetBranch, versionType = Branch \<rparr>;
                        targetVersionDescriptor =
                          \<lparr> version = latestCommitId, versionType = Commit \<rparr>
                    in await_then
                         (getCommitDiffs gitApi repositoryId False 100
                            baseVersionDescriptor targetVersionDescriptor)
                         (\<lambda>diffs. Inr (prResult \<lparr> pullRequestChanges :=
                                          map_option toGitCommitDiffsResult diffs \<rparr>))
                | _ \<Rightarrow> Inr prResult))))"

section \<open>The handlers\<close>

text \<open>
  The numbers \<^verbatim>\<open>top\<close> and \<^verbatim>\<open>skip\<close> of a tool call are integers here. (The
  parameters \<open>top'\<close>, \<open>project'\<close>, \<open>pullRequestId'\<close>, \<open>status'\<close>, \<open>version'\<close> and
  \<open>versionType'\<close> carry a prime, the plain names being constants.) The two pagination expressions, of the repository list and
  of the thread list, each with the comparator it passes to \<^verbatim>\<open>sort\<close>:
\<close>

definition compare_repositories ::
  "(string \<Rightarrow> string \<Rightarrow> int) \<Rightarrow> 'a RepositoryResult_scheme \<Rightarrow> 'a RepositoryResult_scheme \<Rightarrow> int" where
  "compare_repositories localeCompare a b =
     (case RepositoryResult.name a of
        None \<Rightarrow> 0
      | Some n \<Rightarrow> localeCompare n (case RepositoryResult.name b of None \<Rightarrow> [] | Some m \<Rightarrow> m))"

definition paginatedRepositories ::
  "(string \<Rightarrow> string \<Rightarrow> int) \<Rightarrow> RepositoryResult list \<Rightarrow> int \<Rightarrow> int \<Rightarrow> RepositoryResult list" where
  "paginatedRepositories localeCompare reposResult skip top' =
     slice (sort_array (compare_repositories localeCompare) reposResult) skip (skip + top')"

definition compare_threads ::
  "'a GitPullRequestCommentThread_scheme \<Rightarrow> 'a GitPullRequestCommentThread_scheme \<Rightarrow> int" where
  "compare_threads a b =
     (case GitPullRequestCommentThread.id a of None \<Rightarrow> 0 | Some i \<Rightarrow> i) -
     (case GitPullRequestCommentThread.id b of None \<Rightarrow> 0 | Some i \<Rightarrow> i)"

definition paginatedThreads ::
  "GitPullRequestCommentThread list option \<Rightarrow> int \<Rightarrow> int
     \<Rightarrow> GitPullRequestCommentThread list option" where
  "paginatedThreads threads skip top' =
     map_option (\<lambda>threads. slice (sort_array compare_threads threads) skip (skip + top'))
       threads"

text \<open>
  \<^verbatim>\<open>get_azure_devops_repositories\<close>: the whole body is inside \<^verbatim>\<open>try\<close>, and the
  \<^verbatim>\<open>catch\<close> block reads the message through the cast.
\<close>

definition get_azure_devops_repositories_handler ::
  "(string \<Rightarrow> string \<Rightarrow> int) \<Rightarrow> (thrown + WebApi) \<Rightarrow> string \<Rightarrow> int \<Rightarrow> int \<Rightarrow> string option
     \<Rightarrow> thrown + RepositoryResult list tool_result" where
  "get_azure_devops_repositories_handler localeCompare connectionProvider project' top' skip
       repositoryNameOrId =
     (case getRepositoriesResult connectionProvider project' repositoryNameOrId of
        Inr reposResult \<Rightarrow>
          Inr \<lparr> content =
                  [JSON_stringify (paginatedRepositories localeCompare reposResult skip top')],
                isError = None \<rparr>
      | Inl error \<Rightarrow> catch_with_message error ''Failed to get repositories.'')"

text \<open>\<^verbatim>\<open>get_azure_devops_pull_request_by_id\<close>: the same shape.\<close>

definition get_azure_devops_pull_request_by_id_handler ::
  "(thrown + WebApi) \<Rightarrow> string \<Rightarrow> int \<Rightarrow> thrown + PullRequestResult tool_result" where
  "get_azure_devops_pull_request_by_id_handler connectionProvider repositoryId pullRequestId' =
     (case getPullRequestResult connectionProvider repositoryId pullRequestId' of
        Inr prRes \<Rightarrow> Inr \<lparr> content = [JSON_stringify prRes], isError = None \<rparr>
      | Inl error \<Rightarrow> catch_with_message error ''Failed to get pull request.'')"

text \<open>
  \<^verbatim>\<open>repo_search_commits\<close>: the whole body is inside \<^verbatim>\<open>try\<close>, and the \<^verbatim>\<open>catch\<close>
  block tests \<^verbatim>\<open>instanceof Error\<close>, so the handler always returns an envelope.
  The schema restricts \<^verbatim>\<open>versionType\<close> to the names of the members of
  \<^verbatim>\<open>GitVersionType\<close>, so the parameter is the member. The search criteria are
  built first: the item version is set when \<^verbatim>\<open>version\<close> is truthy.
\<close>

definition commits_search_criteria ::
  "string option \<Rightarrow> string option \<Rightarrow> string option \<Rightarrow> GitVersionType \<Rightarrow> bool \<Rightarrow> bool
     \<Rightarrow> GitQueryCommitsCriteria" where
  "commits_search_criteria fromCommit toCommit version' versionType' includeLinks
       includeWorkItems =
     (let searchCriteria = \<lparr>
            fromCommitId = fromCommit,
            toCommitId = toCommit,
            criteria_includeLinks = includeLinks,
            criteria_includeWorkItems = includeWorkItems,
            itemVersion = None \<rparr>
      in case version' of
           None \<Rightarrow> searchCriteria
         | Some v \<Rightarrow>
             if v \<noteq> [] then
               searchCriteria \<lparr> itemVersion :=
                 Some \<lparr> version = Some v, versionType = versionType' \<rparr> \<rparr>
             else searchCriteria)"

definition search_commits_handler ::
  "(thrown + WebApi) \<Rightarrow> string \<Rightarrow> string \<Rightarrow> string option \<Rightarrow> string option \<Rightarrow> string option
     \<Rightarrow> GitVersionType \<Rightarrow> int \<Rightarrow> int \<Rightarrow> bool \<Rightarrow> bool \<Rightarrow> GitCommitRef list option tool_result" where
  "search_commits_handler connectionProvider project' repository fromCommit toCommit version'
       versionType' skip top' includeLinks includeWorkItems =
     (case
        await_then connectionProvider (\<lambda>connection.
        await_then connection (\<lambda>gitApi.
          let searchCriteria =
                commits_search_criteria fromCommit toCommit version' versionType' includeLinks
                  includeWorkItems
          in getCommits gitApi repository searchCriteria project' skip top'))
      of
        Inr found \<Rightarrow> \<lparr> content = [JSON_stringify found], isError = None \<rparr>
      | Inl error \<Rightarrow>
          \<lparr> content = [Plain (''Error searching commits: '' @ error_text error)],
            isError = Some True \<rparr>)"

text \<open>
  \<^verbatim>\<open>repo_list_pull_requests_by_commits\<close>: the same shape. The schema restricts
  \<^verbatim>\<open>queryType\<close> to the names of the members of \<^verbatim>\<open>GitPullRequestQueryType\<close>, so
  the parameter is the member. The answer of the upstream query is returned as it is.
\<close>

definition list_pull_requests_by_commits_handler ::
  "(thrown + WebApi) \<Rightarrow> string \<Rightarrow> string \<Rightarrow> string list \<Rightarrow> GitPullRequestQueryType
     \<Rightarrow> GitPullRequestQuery option tool_result" where
  "list_pull_requests_by_commits_handler connectionProvider project' repository commits'
       queryType =
     (case
        await_then connectionProvider (\<lambda>connection.
        await_then connection (\<lambda>gitApi.
          let query = \<lparr>
                queries = Some [\<lparr> items = Some commits', queryInput_type = Some queryType \<rparr>],
                results = None \<rparr>
          in getPullRequestQuery gitApi query repository project'))
      of
        Inr queryResult \<Rightarrow> \<lparr> content = [JSON_stringify queryResult], isError = None \<rparr>
      | Inl error \<Rightarrow>
          \<lparr> content = [Plain (''Error querying pull requests by commits: '' @
                               error_text error)],
            isError = Some True \<rparr>)"

text \<open>
  The next handlers have no \<^verbatim>\<open>try\<close>: a thrown value leaves the handler (\<open>Inl\<close>).
\<close>

text \<open>
  \<^verbatim>\<open>get_azure_devops_changes_by_commit\<close>: the text is the projection of the
  changes, or a fixed sentence when the upstream call returns nothing.
\<close>

definition get_azure_devops_changes_by_commit_handler ::
  "(thrown + WebApi) \<Rightarrow> string \<Rightarrow> string \<Rightarrow> thrown + GitCommitChangesResult tool_result" where
  "get_azure_devops_changes_by_commit_handler connectionProvider repositoryId commitId' =
     await_then connectionProvider (\<lambda>connection.
     await_then connection (\<lambda>gitApi.
     await_then (getChanges gitApi commitId' repositoryId) (\<lambda>commitChanges.
       let block =
             (case commitChanges of
                None \<Rightarrow> Plain ''No changes found.''
              | Some found \<Rightarrow> JSON_stringify (toGitCommitChangesResult found))
       in Inr \<lparr> content = [block], isError = None \<rparr>)))"

definition list_azure_devops_pull_request_threads_handler ::
  "(thrown + WebApi) \<Rightarrow> string \<Rightarrow> int \<Rightarrow> string option \<Rightarrow> int option \<Rightarrow> int option \<Rightarrow> int \<Rightarrow> int
     \<Rightarrow> thrown + GitPullRequestCommentThread list option tool_result" where
  "list_azure_devops_pull_request_threads_handler connectionProvider repositoryId pullRequestId'
       project' iteration baseIteration top' skip =
     await_then connectionProvider (\<lambda>connection.
     await_then connection (\<lambda>gitApi.
     await_then (getThreads gitApi repositoryId pullRequestId' project' iteration baseIteration)
       (\<lambda>threads.
          Inr \<lparr> content = [JSON_stringify (paginatedThreads threads skip top')],
                isError = None \<rparr>)))"

definition list_branches_by_repo_handler ::
  "(string \<Rightarrow> string \<Rightarrow> int) \<Rightarrow> (thrown + WebApi) \<Rightarrow> string \<Rightarrow> int
     \<Rightarrow> thrown + string list option tool_result" where
  "list_branches_by_repo_handler localeCompare connectionProvider repositoryId top' =
     await_then connectionProvider (\<lambda>connection.
     await_then connection (\<lambda>gitApi.
     await_then (getRefs gitApi repositoryId False) (\<lambda>branches.
       let filteredBranches = branchesFilterOutIrrelevantProperties localeCompare branches top'
       in Inr \<lparr> content = [JSON_stringify filteredBranches], isError = None \<rparr>)))"

definition list_my_branches_by_repo_handler ::
  "(string \<Rightarrow> string \<Rightarrow> int) \<Rightarrow> (thrown + WebApi) \<Rightarrow> string \<Rightarrow> int
     \<Rightarrow> thrown + string list option tool_result" where
  "list_my_branches_by_repo_handler localeCompare connectionProvider repositoryId top' =
     await_then connectionProvider (\<lambda>connection.
     await_then connection (\<lambda>gitApi.
     await_then (getRefs gitApi repositoryId True) (\<lambda>branches.
       let filteredBranches = branchesFilterOutIrrelevantProperties localeCompare branches top'
       in Inr \<lparr> content = [JSON_stringify filteredBranches], isError = None \<rparr>)))"

definition compare_comments :: "'a Comment_scheme \<Rightarrow> 'a Comment_scheme \<Rightarrow> int" where
  "compare_comments a b =
     (case Comment.id a of None \<Rightarrow> 0 | Some i \<Rightarrow> i) -
     (case Comment.id b of None \<Rightarrow> 0 | Some i \<Rightarrow> i)"

definition list_azure_devops_pull_request_comments_by_thread_handler ::
  "(thrown + WebApi) \<Rightarrow> string \<Rightarrow> int \<Rightarrow> int \<Rightarrow> string option \<Rightarrow> int \<Rightarrow> int
     \<Rightarrow> thrown + Comment list option tool_result" where
  "list_azure_devops_pull_request_comments_by_thread_handler connectionProvider repositoryId
       pullRequestId' threadId project' top' skip =
     await_then connectionProvider (\<lambda>connection.
     await_then connection (\<lambda>gitApi.
     await_then (getComments gitApi repositoryId pullRequestId' threadId project') (\<lambda>comments.
       let paginatedComments =
             map_option (\<lambda>comments. slice (sort_array compare_comments comments) skip (skip + top'))
               comments
       in Inr \<lparr> content = [JSON_stringify paginatedComments], isError = None \<rparr>)))"

text \<open>
  The two listings of pull requests. \<^verbatim>\<open>getCurrentUserDetails\<close> is declared in
  \<^verbatim>\<open>tools/auth.ts\<close>, which is not among the sources, so it is a parameter: the
  outcome of the awaited call followed by the read of
  \<^verbatim>\<open>data.authenticatedUser.id\<close>. The handlers call it only when one of the two
  flags is set.
\<close>

definition with_current_user ::
  "(thrown + string option) \<Rightarrow> bool \<Rightarrow> bool \<Rightarrow> GitPullRequestSearchCriteria
     \<Rightarrow> thrown + GitPullRequestSearchCriteria" where
  "with_current_user getCurrentUserDetails created_by_me i_am_reviewer searchCriteria =
     (if created_by_me \<or> i_am_reviewer then
        await_then getCurrentUserDetails (\<lambda>userId.
          let searchCriteria =
                (if created_by_me then searchCriteria \<lparr> creatorId := userId \<rparr>
                 else searchCriteria);
              searchCriteria =
                (if i_am_reviewer then searchCriteria \<lparr> reviewerId := userId \<rparr>
                 else searchCriteria)
          in Inr searchCriteria)
      else Inr searchCriteria)"

definition list_pull_requests_by_repo_handler ::
  "(thrown + string option) \<Rightarrow> (thrown + WebApi) \<Rightarrow> string \<Rightarrow> int \<Rightarrow> int \<Rightarrow> bool \<Rightarrow> bool \<Rightarrow> string
     \<Rightarrow> thrown + PullRequestResult list tool_result" where
  "list_pull_requests_by_repo_handler getCurrentUserDetails connectionProvider repositoryId
       top' skip created_by_me i_am_reviewer status' =
     await_then connectionProvider (\<lambda>connection.
     await_then connection (\<lambda>gitApi.
     await_then (pullRequestStatusStringToInt status') (\<lambda>statusValue.
     await_then
       (with_current_user getCurrentUserDetails created_by_me i_am_reviewer
          \<lparr> criteria_status = statusValue,
            criteria_repositoryId = Some repositoryId,
            creatorId = None,
            reviewerId = None \<rparr>)
       (\<lambda>searchCriteria.
     await_then (getPullRequests gitApi repositoryId searchCriteria skip top') (\<lambda>pullRequests.
       let prResult =
             (case pullRequests of
                None \<Rightarrow> []
              | Some prs \<Rightarrow> map toPullRequestResult prs)
       in Inr \<lparr> content = [JSON_stringify prResult], isError = None \<rparr>)))))"

definition list_pull_requests_by_project_handler ::
  "(thrown + string option) \<Rightarrow> (thrown + WebApi) \<Rightarrow> string \<Rightarrow> int \<Rightarrow> int \<Rightarrow> bool \<Rightarrow> bool \<Rightarrow> string
     \<Rightarrow> thrown + PullRequestResult list tool_result" where
  "list_pull_requests_by_project_handler getCurrentUserDetails connectionProvider project'
       top' skip created_by_me i_am_reviewer status' =
     await_then connectionProvider (\<lambda>connection.
     await_then connection (\<lambda>gitApi.
     await_then (pullRequestStatusStringToInt status') (\<lambda>statusValue.
     await_then
       (with_current_user getCurrentUserDetails created_by_me i_am_reviewer
          \<lparr> criteria_status = statusValue,
            criteria_repositoryId = None,
            creatorId = None,
            reviewerId = None \<rparr>)
       (\<lambda>gitPullRequestSearchCriteria.
     await_then (getPullRequestsByProject gitApi project' gitPullRequestSearchCriteria skip top')
       (\<lambda>pullRequests.
          let prResult =
                (case pullRequests of
                   None \<Rightarrow> []
                 | Some prs \<Rightarrow> map toPullRequestResult prs)
          in Inr \<lparr> content = [JSON_stringify prResult], isError = None \<rparr>)))))"

definition get_branch_by_name_handler ::
  "(thrown + WebApi) \<Rightarrow> string \<Rightarrow> string \<Rightarrow> thrown + GitRef tool_result" where
  "get_branch_by_name_handler connectionProvider repositoryId branchName =
     await_then connectionProvider (\<lambda>connection.
     await_then connection (\<lambda>gitApi.
     await_then (getRefs gitApi repositoryId False) (\<lambda>branches.
       let branch =
             (case branches of
                None \<Rightarrow> None
              | Some bs \<Rightarrow> find (\<lambda>branch. GitRef.name branch = Some (''refs/heads/'' @ branchName)) bs)
       in case branch of
            None \<Rightarrow>
              Inr \<lparr> content = [Plain (''Branch '' @ branchName @ '' not found in repository '' @
                                       repositoryId)],
                    isError = None \<rparr>
          | Some branch \<Rightarrow> Inr \<lparr> content = [JSON_stringify branch], isError = None \<rparr>)))"

section \<open>Sample inputs\<close>

text \<open>A change with a given change-type code, for concrete runs.\<close>

definition sample_change :: "int option \<Rightarrow> GitChange" where
  "sample_change code = \<lparr>
     GitChange.changeId = Some 1,
     GitChange.originalPath = None,
     GitChange.changeType = code,
     GitChange.item = None \<rparr>"

text \<open>The three refs of the branch-listing example of the specification.\<close>

definition sample_refs :: "GitRef list" where
  "sample_refs =
     [\<lparr> GitRef.name = Some ''refs/heads/main'', GitRef.objectId = None \<rparr>,
      \<lparr> GitRef.name = Some ''refs/heads/feature/x'', GitRef.objectId = None \<rparr>,
      \<lparr> GitRef.name = Some ''refs/tags/v1'', GitRef.objectId = None \<rparr>]"

text \<open>250 threads, numbered downwards from 250, and 250 repositories.\<close>

definition sample_threads :: "GitPullRequestCommentThread list" where
  "sample_threads =
     map (\<lambda>i. \<lparr> GitPullRequestCommentThread.id = Some (250 - int i),
                GitPullRequestCommentThread.status = None \<rparr>) [0..<250]"

definition sample_repositories :: "RepositoryResult list" where
  "sample_repositories =
     replicate 250 \<lparr> RepositoryResult.id = None, RepositoryResult.defaultBranch = None,
                     RepositoryResult.name = Some ''repo'', RepositoryResult.isFork = None,
                     RepositoryResult.project = None \<rparr>"

text \<open>
  A repository, a pull request with a target branch, a commit, and a client that
  answers every call: it returns the one repository, the sample pull request, refs
  and threads, and fails on the commit list and on the commit diff.
\<close>

definition sample_repository :: GitRepository where
  "sample_repository = \<lparr>
     GitRepository.id = Some ''0f1e2d'',
     GitRepository.defaultBranch = Some ''refs/heads/main'',
     GitRepository.name = Some ''Alpha'',
     GitRepository.isFork = None,
     GitRepository.project = None \<rparr>"

definition sample_pull_request :: GitPullRequest where
  "sample_pull_request = \<lparr>
     GitPullRequest.closedDate = None,
     GitPullRequest.creationDate = None,
     GitPullRequest.description = None,
     GitPullRequest.pullRequestId = Some 7,
     GitPullRequest.sourceRefName = Some ''refs/heads/feature/x'',
     GitPullRequest.status = Some 1,
     GitPullRequest.targetRefName = Some ''refs/heads/main'',
     GitPullRequest.title = Some ''A change'',
     GitPullRequest.workItemRefs = None,
     GitPullRequest.isDraft = None,
     GitPullRequest.closedBy = None,
     GitPullRequest.createdBy = None,
     GitPullRequest.reviewers = None,
     GitPullRequest.commits = None \<rparr>"

definition sample_commit :: GitCommitRef where
  "sample_commit = \<lparr>
     commitId = Some ''c0ffee'',
     comment = Some ''first'',
     commentTruncated = None,
     author = None,
     committer = None \<rparr>"

definition sample_gitApi :: GitApi where
  "sample_gitApi = \<lparr>
     getRepositories = (\<lambda>project'. Inr (Some [sample_repository])),
     getPullRequest = (\<lambda>repositoryId pullRequestId'. Inr (Some sample_pull_request)),
     getPullRequestCommits = (\<lambda>repositoryId pullRequestId'. Inl (Error ''commits unavailable'')),
     getCommitDiffs = (\<lambda>repositoryId diffCommonCommit top' base target.
                         Inl (Error ''diff unavailable'')),
     getRefs = (\<lambda>repositoryId includeMyBranches. Inr (Some sample_refs)),
     getThreads = (\<lambda>repositoryId pullRequestId' project' iteration baseIteration.
                     Inr (Some sample_threads)),
     getComments = (\<lambda>repositoryId pullRequestId' threadId project'.
                      Inr (Some [\<lparr> Comment.id = Some 1, parentCommentId = None \<rparr>])),
     getPullRequests = (\<lambda>repositoryId searchCriteria skip top'.
                          Inr (Some [sample_pull_request])),
     getPullRequestsByProject = (\<lambda>project' searchCriteria skip top'.
                                   Inr (Some [sample_pull_request])),
     getCommits = (\<lambda>repository searchCriteria project' skip top'.
                     Inr (Some [sample_commit])),
     getPullRequestQuery = (\<lambda>query repository project'.
                              Inr (Some (query \<lparr> results :=
                                Some [[(''c0ffee'', [sample_pull_request])]] \<rparr>))),
     getChanges = (\<lambda>commitId' repositoryId.
                     Inr (Some \<lparr> GitCommitChanges.changes =
                                      Some [sample_change (Some 2)] \<rparr>)) \<rparr>"




definition sample_tag_refs :: "GitRef list" where
  "sample_tag_refs = [\<lparr> GitRef.name = Some ''refs/tags/v1'', GitRef.objectId = None \<rparr>]"

definition sample_gitApi_empty :: GitApi where
  "sample_gitApi_empty =
     sample_gitApi \<lparr>
       getRepositories := (\<lambda>project'. Inr (Some [])),
       getPullRequest := (\<lambda>repositoryId pullRequestId'. Inr None),
       getRefs := (\<lambda>repositoryId includeMyBranches. Inr (Some sample_tag_refs)),
       getThreads := (\<lambda>repositoryId pullRequestId' project' iteration baseIteration.
                        Inr (Some [])),
       getComments := (\<lambda>repositoryId pullRequestId' threadId project'. Inr (Some [])),
       getPullRequests := (\<lambda>repositoryId searchCriteria skip top'. Inr (Some [])),
       getPullRequestsByProject := (\<lambda>project' searchCriteria skip top'. Inr None),
       getCommits := (\<lambda>repository searchCriteria project' skip top'. Inr (Some [])),
       getPullRequestQuery := (\<lambda>query repository project'.
                                 Inr (Some (query \<lparr> results := Some [[]] \<rparr>))),
       getChanges := (\<lambda>commitId' repositoryId.
                        Inr (Some \<lparr> GitCommitChanges.changes = Some [] \<rparr>)) \<rparr>"

section \<open>Properties of the enablement gate\<close>

lemma foldl_delete: "foldl (\<lambda>disabled tool. disabled - {tool}) S xs = S - set xs"
  by (induction xs arbitrary: S) auto

lemma disabledTools_eq:
  "disabledTools cat env = set (all_tools cat) - set (enabled_names cat env)"
  by (simp add: disabledTools_def foldl_delete)

lemma set_all_tools:
  "set (all_tools cat) =
     set (CORE_TOOLS_values (CORE_TOOLS cat)) \<union> set (WORK_TOOLS cat) \<union> set (BUILD_TOOLS cat) \<union>
     set (REPO_TOOLS_values REPO_TOOLS) \<union> set (WORKITEM_TOOLS cat) \<union> set (RELEASE_TOOLS cat) \<union>
     set (WIKI_TOOLS cat) \<union> set (Test_Plan_Tools cat) \<union> set (SEARCH_TOOLS_values SEARCH_TOOLS)"
  by (simp add: all_tools_def TOOLS_CATEGORY_MAP_def Un_assoc)

lemma enabled_set_eq:
  "set (all_tools cat) - disabledTools cat env =
     set (all_tools cat) \<inter> set (enabled_names cat env)"
  by (auto simp: disabledTools_eq)

lemma defaults_subset: "set (DEFAULT_ENABLED_TOOLS cat) \<subseteq> set (all_tools cat)"
  unfolding set_all_tools
  by (simp add: DEFAULT_ENABLED_TOOLS_def CORE_TOOLS_values_def REPO_TOOLS_values_def
      SEARCH_TOOLS_values_def)

lemma category_subset:
  "map_of (TOOLS_CATEGORY_MAP cat) c = Some category \<Longrightarrow> set category \<subseteq> set (all_tools cat)"
  by (auto simp: all_tools_def dest!: map_of_SomeD)

lemma named_category_tools_iff:
  "t \<in> named_category_tools cat env \<longleftrightarrow>
     (\<exists>c category. c \<in> set (override_tokens env) \<and>
        map_of (TOOLS_CATEGORY_MAP cat) c = Some category \<and> t \<in> set category)"
proof
  assume "t \<in> named_category_tools cat env"
  then obtain c where c: "c \<in> set (override_tokens env)"
    and t: "t \<in> set (case map_of (TOOLS_CATEGORY_MAP cat) c of
                        Some category \<Rightarrow> category | None \<Rightarrow> [])"
    by (auto simp: named_category_tools_def)
  from t obtain category where "map_of (TOOLS_CATEGORY_MAP cat) c = Some category"
    and "t \<in> set category"
    by (cases "map_of (TOOLS_CATEGORY_MAP cat) c") auto
  with c show "\<exists>c category. c \<in> set (override_tokens env) \<and>
        map_of (TOOLS_CATEGORY_MAP cat) c = Some category \<and> t \<in> set category"
    by blast
next
  assume "\<exists>c category. c \<in> set (override_tokens env) \<and>
        map_of (TOOLS_CATEGORY_MAP cat) c = Some category \<and> t \<in> set category"
  then obtain c category where c: "c \<in> set (override_tokens env)"
    and m: "map_of (TOOLS_CATEGORY_MAP cat) c = Some category" and t: "t \<in> set category"
    by blast
  from m t have "t \<in> set (case map_of (TOOLS_CATEGORY_MAP cat) c of
                        Some category \<Rightarrow> category | None \<Rightarrow> [])"
    by simp
  with c show "t \<in> named_category_tools cat env"
    unfolding named_category_tools_def by auto
qed

lemma named_category_tools_subset: "named_category_tools cat env \<subseteq> set (all_tools cat)"
proof
  fix t assume "t \<in> named_category_tools cat env"
  then obtain c category where "map_of (TOOLS_CATEGORY_MAP cat) c = Some category"
    and "t \<in> set category"
    unfolding named_category_tools_iff by blast
  then show "t \<in> set (all_tools cat)"
    using category_subset by blast
qed

lemma set_enabled_names:
  "set (enabled_names cat env) =
     set (DEFAULT_ENABLED_TOOLS cat) \<union>
     {t. t \<in> set (override_tokens env) \<and> map_of (TOOLS_CATEGORY_MAP cat) t = None} \<union>
     named_category_tools cat env"
  by (auto simp: enabled_names_def named_category_tools_iff override_tokens_def
      resolve_token_def Let_def split: option.splits)

text \<open>
  The gate itself, for every override string: the tools of the catalogue outside
  the disabled set are the default-enabled tools, the tools that a token names, and
  the members of the categories that a token names.
\<close>

lemma enabled_set_allow_list:
  "set (all_tools cat) - disabledTools cat env =
     set (DEFAULT_ENABLED_TOOLS cat) \<union> named_tools cat env \<union> named_category_tools cat env"
  unfolding enabled_set_eq set_enabled_names named_tools_def
  using defaults_subset [of cat] named_category_tools_subset [of cat env] by auto

subsection \<open>Registration\<close>

lemma set_foldl_register:
  "set (foldl (\<lambda>srv name. register_unless_disabled D name srv) server xs) =
     set server \<union> (set xs - D)"
  by (induction xs arbitrary: server) (auto simp: register_unless_disabled_def)

lemma set_configureFamilyTools:
  "set (configureFamilyTools family server D) = set server \<union> (set family - D)"
  by (simp add: configureFamilyTools_def set_foldl_register)

lemma set_configureRepoTools:
  "set (configureRepoTools server D) = set server \<union> (set (REPO_TOOLS_values REPO_TOOLS) - D)"
  unfolding configureRepoTools_def set_foldl_register REPO_TOOLS_values_def
  by (simp add: insert_commute)

lemma configureSearchTools_no_set:
  "configureSearchTools server adoManager Function_value =
     Inl (Error ''disabledTools.has is not a function'')"
  "configureSearchTools server adoManager Object_value =
     Inl (Error ''disabledTools.has is not a function'')"
  "configureSearchTools server adoManager Undefined_value =
     Inl (Error ''Cannot read properties of undefined (reading 'has')'')"
  by (simp_all add: configureSearchTools_def register_unless_has_def has_def await_then_def)

text \<open>
  Whatever the override string is, when the connection provider is a function, an
  object that is no set, or undefined, \<^verbatim>\<open>configureAllTools\<close> rejects, and the names registered by then are
  the tools of the first eight families outside the disabled set.
\<close>

lemma configureAllTools_rejects:
  assumes "connectionProvider = Function_value \<or> connectionProvider = Object_value \<or>
    connectionProvider = Undefined_value"
  shows "(\<exists>e. snd (configureAllTools cat tokenProvider connectionProvider env) = Inl e) \<and>
    set (fst (configureAllTools cat tokenProvider connectionProvider env)) =
      (set (CORE_TOOLS_values (CORE_TOOLS cat)) \<union> set (WORK_TOOLS cat) \<union>
       set (BUILD_TOOLS cat) \<union> set (REPO_TOOLS_values REPO_TOOLS) \<union>
       set (WORKITEM_TOOLS cat) \<union> set (RELEASE_TOOLS cat) \<union> set (WIKI_TOOLS cat) \<union>
       set (Test_Plan_Tools cat)) - disabledTools cat env"
  using assms
  unfolding configureAllTools_def Let_def
  by (auto simp: configureSearchTools_no_set set_configureFamilyTools set_configureRepoTools)


subsection \<open>Two override strings\<close>

lemma tokens_repo_override:
  "override_tokens (Some ''category_repo,get_azure_devops_pull_request_by_id'') =
     [''category_repo'', ''get_azure_devops_pull_request_by_id'']"
  by (simp add: override_tokens_def env_or_empty_def trim_def is_white_space_def)

lemma tokens_empty_override: "override_tokens (Some []) = [[]]" "override_tokens None = [[]]"
  by (simp_all add: override_tokens_def env_or_empty_def trim_def)

lemma category_repo_lookup:
  "map_of (TOOLS_CATEGORY_MAP cat) ''category_repo'' = Some (REPO_TOOLS_values REPO_TOOLS)"
  by (simp add: TOOLS_CATEGORY_MAP_def)

lemma pull_request_by_id_no_category:
  "map_of (TOOLS_CATEGORY_MAP cat) ''get_azure_devops_pull_request_by_id'' = None"
  by (simp add: TOOLS_CATEGORY_MAP_def)

lemma empty_token_no_category: "map_of (TOOLS_CATEGORY_MAP cat) [] = None"
  by (simp add: TOOLS_CATEGORY_MAP_def)

lemma pull_request_by_id_default:
  "''get_azure_devops_pull_request_by_id'' \<in> set (DEFAULT_ENABLED_TOOLS cat)"
  by (simp add: DEFAULT_ENABLED_TOOLS_def REPO_TOOLS_def)

text \<open>
  Claim C2, as the code has it. With the override string
  \<^verbatim>\<open>"category_repo,get_azure_devops_pull_request_by_id"\<close> the disabled set that
  the gate computes holds every tool of the catalogue except the tools of the repo
  category and the default-enabled tools; the enabled set, the tools of the
  catalogue outside it, is the repo category together with the default-enabled
  tools. So a tool of another category is disabled unless it is default-enabled
  (or shares its name with a repo tool).
\<close>

theorem repo_override_enabled_set:
  "disabledTools cat (Some ''category_repo,get_azure_devops_pull_request_by_id'') =
     set (all_tools cat) - (set (REPO_TOOLS_values REPO_TOOLS) \<union> set (DEFAULT_ENABLED_TOOLS cat))
   \<and> set (all_tools cat) -
       disabledTools cat (Some ''category_repo,get_azure_devops_pull_request_by_id'') =
     set (REPO_TOOLS_values REPO_TOOLS) \<union> set (DEFAULT_ENABLED_TOOLS cat)"
proof -
  let ?env = "Some ''category_repo,get_azure_devops_pull_request_by_id''"
  have cats: "named_category_tools cat ?env = set (REPO_TOOLS_values REPO_TOOLS)"
    unfolding named_category_tools_def tokens_repo_override
    by (simp add: category_repo_lookup pull_request_by_id_no_category)
  have en: "set (enabled_names cat ?env) =
      set (REPO_TOOLS_values REPO_TOOLS) \<union> set (DEFAULT_ENABLED_TOOLS cat)"
    unfolding set_enabled_names cats tokens_repo_override
    using pull_request_by_id_default [of cat]
    by (auto simp: category_repo_lookup)
  have sub: "set (REPO_TOOLS_values REPO_TOOLS) \<subseteq> set (all_tools cat)"
    by (auto simp: set_all_tools)
  show ?thesis
    unfolding disabledTools_eq en using sub defaults_subset [of cat] by auto
qed

text \<open>
  The claim C2 as the specification states it fails: the code-search tool belongs to
  the search category, is no repo tool, and is not in the disabled set under this
  override string, since it is default-enabled.
\<close>

theorem repo_override_keeps_search_tool:
  "search_azure_devops_code SEARCH_TOOLS \<in> set (SEARCH_TOOLS_values SEARCH_TOOLS) \<and>
   search_azure_devops_code SEARCH_TOOLS \<notin> set (REPO_TOOLS_values REPO_TOOLS) \<and>
   search_azure_devops_code SEARCH_TOOLS \<notin>
     disabledTools sample_catalogue (Some ''category_repo,get_azure_devops_pull_request_by_id'')"
  by code_simp

text \<open>
  Claim C6. With an empty override string (or the variable unset) the split yields
  the single empty token, which names no category; deleting it from the disabled set
  changes nothing as long as no tool carries the empty name. Then the disabled set
  is every tool of the catalogue but the default-enabled ones, so exactly the
  default-enabled tools are enabled. The gate is a total function: nothing is
  thrown.
\<close>

theorem empty_override_only_defaults:
  assumes "[] \<notin> set (all_tools cat)"
  shows "override_tokens (Some []) = [[]] \<and>
    disabledTools cat (Some []) = set (all_tools cat) - set (DEFAULT_ENABLED_TOOLS cat) \<and>
    disabledTools cat None = set (all_tools cat) - set (DEFAULT_ENABLED_TOOLS cat) \<and>
    set (all_tools cat) - disabledTools cat (Some []) = set (DEFAULT_ENABLED_TOOLS cat) \<and>
    set (all_tools cat) - disabledTools cat None = set (DEFAULT_ENABLED_TOOLS cat)"
proof -
  have cats: "named_category_tools cat (Some []) = {}" "named_category_tools cat None = {}"
    unfolding named_category_tools_def tokens_empty_override
    by (simp_all add: empty_token_no_category)
  have en: "set (enabled_names cat (Some [])) = set (DEFAULT_ENABLED_TOOLS cat) \<union> {[]}"
    "set (enabled_names cat None) = set (DEFAULT_ENABLED_TOOLS cat) \<union> {[]}"
    unfolding set_enabled_names cats tokens_empty_override
    by (auto simp: empty_token_no_category)
  show ?thesis
    unfolding disabledTools_eq en
    using assms defaults_subset [of cat] by (auto simp: tokens_empty_override)
qed

theorem empty_override_only_defaults_witness:
  "[] \<notin> set (all_tools sample_catalogue) \<and>
   (override_tokens (Some []) = [[]] \<and>
    disabledTools sample_catalogue (Some []) =
      set (all_tools sample_catalogue) - set (DEFAULT_ENABLED_TOOLS sample_catalogue) \<and>
    disabledTools sample_catalogue None =
      set (all_tools sample_catalogue) - set (DEFAULT_ENABLED_TOOLS sample_catalogue) \<and>
    set (all_tools sample_catalogue) - disabledTools sample_catalogue (Some []) =
      set (DEFAULT_ENABLED_TOOLS sample_catalogue) \<and>
    set (all_tools sample_catalogue) - disabledTools sample_catalogue None =
      set (DEFAULT_ENABLED_TOOLS sample_catalogue))"
proof -
  have h: "[] \<notin> set (all_tools sample_catalogue)" by code_simp
  from h empty_override_only_defaults [OF h] show ?thesis by (rule conjI)
qed

section \<open>Pull-request status translation\<close>

text \<open>
  Claim C3, as the code has it. \<^verbatim>\<open>pullRequestStatusStringToInt\<close> returns a number
  exactly on the five tokens "abandoned", "active", "all", "completed" and "notSet",
  namely the value of the member of \<^verbatim>\<open>PullRequestStatus\<close> with that name: 2, 1, 4,
  3 and 0. On every other string it throws an error whose message names the string.
\<close>

theorem pull_request_status_translation:
  "pullRequestStatusStringToInt ''abandoned'' = Inr 2 \<and>
   pullRequestStatusStringToInt ''active'' = Inr 1 \<and>
   pullRequestStatusStringToInt ''all'' = Inr 4 \<and>
   pullRequestStatusStringToInt ''completed'' = Inr 3 \<and>
   pullRequestStatusStringToInt ''notSet'' = Inr 0 \<and>
   ((\<exists>n. pullRequestStatusStringToInt s = Inr n) \<longleftrightarrow>
      s \<in> {''abandoned'', ''active'', ''all'', ''completed'', ''notSet''}) \<and>
   (s \<notin> {''abandoned'', ''active'', ''all'', ''completed'', ''notSet''} \<longrightarrow>
      pullRequestStatusStringToInt s = Inl (Error (''Unknown pull request status: '' @ s)))"
  by (simp add: pullRequestStatusStringToInt_def)

theorem pull_request_status_translation_witness:
  "''merged'' \<notin> {''abandoned'', ''active'', ''all'', ''completed'', ''notSet''} \<and>
   pullRequestStatusStringToInt ''merged'' = Inl (Error ''Unknown pull request status: merged'')"
  using pull_request_status_translation [of "''merged''"] by simp

text \<open>
  The claim C3 as the specification states it fails in its parenthesis: "active" is
  translated to 1, the value of \<^verbatim>\<open>PullRequestStatus.Active\<close>, not to 3.
\<close>

theorem active_status_is_not_three:
  "pullRequestStatusStringToInt ''active'' = Inr 1 \<and>
   pullRequestStatusStringToInt ''active'' \<noteq> Inr 3"
  by (simp add: pullRequestStatusStringToInt_def)

section \<open>Change-type projection\<close>

lemma changeType_toGitChangeResult:
  "GitChangeResult.changeType (toGitChangeResult change) =
     (case GitChange.changeType change of
        None \<Rightarrow> None
      | Some code \<Rightarrow> if code \<noteq> 0 then enum_name VersionControlChangeType code else None)"
  by (simp add: toGitChangeResult_def)

lemma enum_name_VCT_none:
  "v \<notin> snd ` set VersionControlChangeType \<Longrightarrow> enum_name VersionControlChangeType v = None"
  unfolding VersionControlChangeType_def enum_name_def by simp

lemma enum_name_member:
  assumes "distinct (map snd E)" and "(member, v) \<in> set E"
  shows "enum_name E v = Some member"
proof -
  let ?R = "map (\<lambda>(member, v). (v, member)) (rev E)"
  have "map fst ?R = rev (map snd E)"
    by (simp add: rev_map case_prod_unfold)
  then have "distinct (map fst ?R)"
    using assms(1) by simp
  moreover have "(v, member) \<in> set ?R"
    using assms(2) by force
  ultimately show ?thesis
    unfolding enum_name_def by (rule map_of_is_SomeI)
qed

lemma distinct_VCT: "distinct (map snd VersionControlChangeType)"
  by (simp add: VersionControlChangeType_def)

lemma enum_name_VCT_member:
  "(member, v) \<in> set VersionControlChangeType \<Longrightarrow>
     enum_name VersionControlChangeType v = Some member"
  using distinct_VCT by (rule enum_name_member)

lemma Edit_member: "(''Edit'', 2) \<in> set VersionControlChangeType"
  by (simp add: VersionControlChangeType_def)

lemma None_member: "(''None'', 0) \<in> set VersionControlChangeType"
  by (simp add: VersionControlChangeType_def)

lemma Delete_member: "(''Delete'', 16) \<in> set VersionControlChangeType"
  by (simp add: VersionControlChangeType_def)

lemma three_no_member: "3 \<notin> snd ` set VersionControlChangeType"
  by (simp add: VersionControlChangeType_def)

lemma changeType_sample_change: "GitChange.changeType (sample_change c) = c"
  by (simp add: sample_change_def)

text \<open>
  Claim C9, as the code has it. \<^verbatim>\<open>toGitChangeResult\<close> projects an undefined change
  type to undefined; the code 2 to the string "Edit"; every code other than 0 that
  is the value of a member of \<^verbatim>\<open>VersionControlChangeType\<close> to the name of that
  member; and a code that is the value of no member (a combination of flags such as
  3) to undefined.
\<close>

theorem change_type_projection:
  "(GitChange.changeType change = None \<longrightarrow>
      GitChangeResult.changeType (toGitChangeResult change) = None) \<and>
   (GitChange.changeType change = Some 2 \<longrightarrow>
      GitChangeResult.changeType (toGitChangeResult change) = Some ''Edit'') \<and>
   ((member, code) \<in> set VersionControlChangeType \<and> code \<noteq> 0 \<and>
       GitChange.changeType change = Some code \<longrightarrow>
      GitChangeResult.changeType (toGitChangeResult change) = Some member) \<and>
   (code' \<notin> snd ` set VersionControlChangeType \<and>
       GitChange.changeType change = Some code' \<longrightarrow>
      GitChangeResult.changeType (toGitChangeResult change) = None)"
proof (intro conjI impI)
  assume "GitChange.changeType change = None"
  then show "GitChangeResult.changeType (toGitChangeResult change) = None"
    by (simp add: changeType_toGitChangeResult)
next
  have "enum_name VersionControlChangeType 2 = Some ''Edit''"
    using Edit_member by (rule enum_name_VCT_member)
  moreover assume "GitChange.changeType change = Some 2"
  ultimately show "GitChangeResult.changeType (toGitChangeResult change) = Some ''Edit''"
    by (simp add: changeType_toGitChangeResult)
next
  assume a: "(member, code) \<in> set VersionControlChangeType \<and> code \<noteq> 0 \<and>
       GitChange.changeType change = Some code"
  then have "enum_name VersionControlChangeType code = Some member"
    by (simp add: enum_name_VCT_member)
  with a show "GitChangeResult.changeType (toGitChangeResult change) = Some member"
    by (simp add: changeType_toGitChangeResult)
next
  assume a: "code' \<notin> snd ` set VersionControlChangeType \<and>
       GitChange.changeType change = Some code'"
  then have "enum_name VersionControlChangeType code' = None"
    by (simp add: enum_name_VCT_none)
  with a show "GitChangeResult.changeType (toGitChangeResult change) = None"
    by (simp add: changeType_toGitChangeResult)
qed

theorem change_type_projection_witness:
  "GitChange.changeType (sample_change None) = None \<and>
   GitChangeResult.changeType (toGitChangeResult (sample_change None)) = None \<and>
   GitChange.changeType (sample_change (Some 2)) = Some 2 \<and>
   GitChangeResult.changeType (toGitChangeResult (sample_change (Some 2))) = Some ''Edit'' \<and>
   (''Delete'', 16) \<in> set VersionControlChangeType \<and>
   GitChangeResult.changeType (toGitChangeResult (sample_change (Some 16))) = Some ''Delete'' \<and>
   3 \<notin> snd ` set VersionControlChangeType \<and>
   GitChangeResult.changeType (toGitChangeResult (sample_change (Some 3))) = None"
proof -
  note a = changeType_sample_change
  have u: "GitChangeResult.changeType (toGitChangeResult (sample_change None)) = None"
    using change_type_projection [of "sample_change None"] by (simp add: a)
  have e: "GitChangeResult.changeType (toGitChangeResult (sample_change (Some 2))) =
      Some ''Edit''"
    using change_type_projection [of "sample_change (Some 2)"] by (simp add: a)
  have d: "GitChangeResult.changeType (toGitChangeResult (sample_change (Some 16))) =
      Some ''Delete''"
    using change_type_projection [of "sample_change (Some 16)" "''Delete''" 16] Delete_member
    by (simp add: a)
  have c: "GitChangeResult.changeType (toGitChangeResult (sample_change (Some 3))) = None"
    using change_type_projection [of "sample_change (Some 3)" _ _ 3] three_no_member
    by (simp add: a)
  show ?thesis
    using u e d c Delete_member three_no_member by (simp add: a)
qed

text \<open>
  The claim C9 as the specification states it, for every change, fails at the code
  0: its symbolic name is "None", and the projection is undefined.
\<close>

theorem change_type_zero_not_rendered:
  "GitChange.changeType (sample_change (Some 0)) = Some 0 \<and>
   (''None'', 0) \<in> set VersionControlChangeType \<and>
   enum_name VersionControlChangeType 0 = Some ''None'' \<and>
   GitChangeResult.changeType (toGitChangeResult (sample_change (Some 0))) \<noteq> Some ''None''"
  using None_member
  by (simp add: changeType_toGitChangeResult changeType_sample_change enum_name_VCT_member)

text \<open>
  Claim C10. A change whose change type is present and equal to 0, the code of the
  member "None", is projected to an undefined change type, as an absent one is: the
  projection tests the truthiness of the code.
\<close>

theorem change_type_zero_is_undefined:
  "GitChange.changeType change = Some 0 \<Longrightarrow>
     GitChangeResult.changeType (toGitChangeResult change) = None \<and>
     enum_name VersionControlChangeType 0 = Some ''None''"
  using None_member by (simp add: changeType_toGitChangeResult enum_name_VCT_member)

theorem change_type_zero_is_undefined_witness:
  "GitChange.changeType (sample_change (Some 0)) = Some 0 \<and>
   GitChangeResult.changeType (toGitChangeResult (sample_change (Some 0))) = None"
  using change_type_zero_is_undefined [of "sample_change (Some 0)"]
  by (simp add: changeType_sample_change)


section \<open>Slicing and sorting\<close>

lemma slice_between:
  "0 \<le> a \<Longrightarrow> a \<le> b \<Longrightarrow> slice xs a b = take (nat (b - a)) (drop (nat a) xs)"
  unfolding slice_def relative_index_def Let_def
  by (cases "b \<le> int (length xs)") (auto simp: min_def nat_diff_distrib)

lemma slice_nonneg:
  "0 \<le> skip \<Longrightarrow> 0 \<le> n \<Longrightarrow> slice xs skip (skip + n) = take (nat n) (drop (nat skip) xs)"
  by (simp add: slice_between)

lemma replace_prefix: "startsWith s p \<Longrightarrow> replace s p r = r @ drop (length p) s"
  by (cases s) (auto simp: startsWith_def)

lemma length_insert_sorted: "length (insert_sorted c x xs) = Suc (length xs)"
  by (induction xs) auto

lemma length_sort_array: "length (sort_array c xs) = length xs"
  by (induction xs) (auto simp: sort_array_def length_insert_sorted)

lemma mset_insert_sorted: "mset (insert_sorted c x xs) = add_mset x (mset xs)"
  by (induction xs) auto

lemma mset_sort_array: "mset (sort_array c xs) = mset xs"
  by (induction xs) (auto simp: sort_array_def mset_insert_sorted)

lemma set_insert_sorted: "set (insert_sorted c x xs) = insert x (set xs)"
  by (induction xs) auto

lemma sorted_insert_sorted:
  assumes "consistent c" and "sorted_wrt (\<lambda>a b. c a b \<le> 0) xs"
  shows "sorted_wrt (\<lambda>a b. c a b \<le> 0) (insert_sorted c x xs)"
  using assms(2)
proof (induction xs)
  case Nil
  then show ?case by simp
next
  case (Cons y ys)
  have tot: "c a b \<le> 0 \<or> c b a \<le> 0" for a b
    using assms(1) unfolding consistent_def by blast
  have tr: "c a b \<le> 0 \<Longrightarrow> c b d \<le> 0 \<Longrightarrow> c a d \<le> 0" for a b d
    using assms(1) unfolding consistent_def by blast
  show ?case
  proof (cases "c x y \<le> 0")
    case True
    then have "\<forall>z \<in> set ys. c x z \<le> 0"
      using Cons.prems tr by auto
    with True Cons.prems show ?thesis by simp
  next
    case False
    then have "c y x \<le> 0" using tot by blast
    with False Cons show ?thesis
      by (auto simp: set_insert_sorted)
  qed
qed

lemma sorted_sort_array:
  "consistent c \<Longrightarrow> sorted_wrt (\<lambda>a b. c a b \<le> 0) (sort_array c xs)"
  by (induction xs) (auto simp: sort_array_def sorted_insert_sorted)

lemma consistent_flip: "consistent c \<Longrightarrow> consistent (\<lambda>a b. c b a)"
  unfolding consistent_def by blast

lemma three_pages:
  assumes "length xs = 250"
  shows "slice xs 0 (0 + 100) @ slice xs 100 (100 + 100) @ slice xs 200 (200 + 100) = xs"
proof -
  have "take 100 xs @ take 100 (drop 100 xs) @ take 100 (drop 200 xs) = take (100 + (100 + 100)) xs"
    by (simp only: take_add drop_drop) simp
  then show ?thesis using assms by (simp add: slice_between)
qed

lemma far_page: "length xs = 250 \<Longrightarrow> slice xs 1000 (1000 + 100) = []"
  by (simp add: slice_between)

section \<open>Pagination\<close>

lemma threads_handler_returns:
  "getThreads gitApi repositoryId pullRequestId' project' iteration baseIteration = Inr threads \<Longrightarrow>
   list_azure_devops_pull_request_threads_handler (Inr (Inr gitApi)) repositoryId pullRequestId'
       project' iteration baseIteration top' skip =
     Inr \<lparr> content = [JSON_stringify (paginatedThreads threads skip top')], isError = None \<rparr>"
  by (simp add: list_azure_devops_pull_request_threads_handler_def await_then_def)

text \<open>
  Claim C4. For \<open>skip \<ge> 0\<close> and \<open>top \<ge> 0\<close> the slice \<^verbatim>\<open>slice(skip, skip + top)\<close>
  of a list holds the elements at the offsets from \<open>skip\<close> up to, not including,
  \<open>skip + top\<close>, as far as the list reaches; so do the pages of the repository
  list and of the thread list, cut from the sorted list. For 250 items the pages
  with \<open>top = 100\<close> at \<open>skip = 0\<close>, 100 and 200 concatenate to the whole sorted list,
  the page at \<open>skip = 1000\<close> is empty, and the thread handler returns it in an
  envelope without error flag.
\<close>

theorem pagination_slicing:
  "(0 \<le> skip \<and> 0 \<le> top' \<longrightarrow>
      slice xs skip (skip + top') = take (nat top') (drop (nat skip) xs) \<and>
      length (slice xs skip (skip + top')) = min (nat top') (length xs - nat skip) \<and>
      (\<forall>i < length (slice xs skip (skip + top')).
          slice xs skip (skip + top') ! i = xs ! (nat skip + i)) \<and>
      paginatedThreads (Some threads) skip top' =
        Some (take (nat top') (drop (nat skip) (sort_array compare_threads threads))) \<and>
      paginatedRepositories localeCompare repos skip top' =
        take (nat top') (drop (nat skip) (sort_array (compare_repositories localeCompare) repos))) \<and>
   (length xs = 250 \<longrightarrow>
      slice xs 0 (0 + 100) @ slice xs 100 (100 + 100) @ slice xs 200 (200 + 100) = xs \<and>
      slice xs 1000 (1000 + 100) = []) \<and>
   (length repos = 250 \<longrightarrow>
      paginatedRepositories localeCompare repos 0 100 @
      paginatedRepositories localeCompare repos 100 100 @
      paginatedRepositories localeCompare repos 200 100 =
        sort_array (compare_repositories localeCompare) repos \<and>
      paginatedRepositories localeCompare repos 1000 100 = []) \<and>
   (length threads = 250 \<longrightarrow>
      (\<exists>p1 p2 p3. paginatedThreads (Some threads) 0 100 = Some p1 \<and>
          paginatedThreads (Some threads) 100 100 = Some p2 \<and>
          paginatedThreads (Some threads) 200 100 = Some p3 \<and>
          p1 @ p2 @ p3 = sort_array compare_threads threads) \<and>
      paginatedThreads (Some threads) 1000 100 = Some []) \<and>
   (length threads = 250 \<and>
    getThreads gitApi repositoryId pullRequestId' project' iteration baseIteration =
      Inr (Some threads) \<longrightarrow>
      list_azure_devops_pull_request_threads_handler (Inr (Inr gitApi)) repositoryId
          pullRequestId' project' iteration baseIteration 100 1000 =
        Inr \<lparr> content = [JSON_stringify (Some [])], isError = None \<rparr>)"
proof (intro conjI impI)
  assume a: "0 \<le> skip \<and> 0 \<le> top'"
  then show s: "slice xs skip (skip + top') = take (nat top') (drop (nat skip) xs)"
    by (simp add: slice_nonneg)
  show "length (slice xs skip (skip + top')) = min (nat top') (length xs - nat skip)"
    unfolding s by simp
  show "\<forall>i < length (slice xs skip (skip + top')).
          slice xs skip (skip + top') ! i = xs ! (nat skip + i)"
    unfolding s
  proof (intro allI impI)
    fix i assume "i < length (take (nat top') (drop (nat skip) xs))"
    then have "i < nat top'" and "nat skip \<le> length xs"
      by auto
    then show "take (nat top') (drop (nat skip) xs) ! i = xs ! (nat skip + i)"
      by (simp add: nth_drop)
  qed
  from a show "paginatedThreads (Some threads) skip top' =
        Some (take (nat top') (drop (nat skip) (sort_array compare_threads threads)))"
    by (simp add: paginatedThreads_def slice_nonneg)
  from a show "paginatedRepositories localeCompare repos skip top' =
        take (nat top') (drop (nat skip) (sort_array (compare_repositories localeCompare) repos))"
    by (simp add: paginatedRepositories_def slice_nonneg)
next
  assume "length xs = 250"
  then show "slice xs 0 (0 + 100) @ slice xs 100 (100 + 100) @ slice xs 200 (200 + 100) = xs"
    by (rule three_pages)
next
  assume "length xs = 250"
  then show "slice xs 1000 (1000 + 100) = []"
    by (rule far_page)
next
  assume "length repos = 250"
  then have "length (sort_array (compare_repositories localeCompare) repos) = 250"
    by (simp add: length_sort_array)
  then show "paginatedRepositories localeCompare repos 0 100 @
      paginatedRepositories localeCompare repos 100 100 @
      paginatedRepositories localeCompare repos 200 100 =
        sort_array (compare_repositories localeCompare) repos"
    unfolding paginatedRepositories_def by (rule three_pages)
next
  assume "length repos = 250"
  then have "length (sort_array (compare_repositories localeCompare) repos) = 250"
    by (simp add: length_sort_array)
  then show "paginatedRepositories localeCompare repos 1000 100 = []"
    unfolding paginatedRepositories_def by (rule far_page)
next
  assume "length threads = 250"
  then have l: "length (sort_array compare_threads threads) = 250"
    by (simp add: length_sort_array)
  have "slice (sort_array compare_threads threads) 0 (0 + 100) @
      slice (sort_array compare_threads threads) 100 (100 + 100) @
      slice (sort_array compare_threads threads) 200 (200 + 100) =
      sort_array compare_threads threads"
    using l by (rule three_pages)
  then show "\<exists>p1 p2 p3. paginatedThreads (Some threads) 0 100 = Some p1 \<and>
          paginatedThreads (Some threads) 100 100 = Some p2 \<and>
          paginatedThreads (Some threads) 200 100 = Some p3 \<and>
          p1 @ p2 @ p3 = sort_array compare_threads threads"
    unfolding paginatedThreads_def by simp
next
  assume "length threads = 250"
  then have l: "length (sort_array compare_threads threads) = 250"
    by (simp add: length_sort_array)
  show "paginatedThreads (Some threads) 1000 100 = Some []"
    unfolding paginatedThreads_def using far_page [OF l] by simp
next
  assume a: "length threads = 250 \<and>
    getThreads gitApi repositoryId pullRequestId' project' iteration baseIteration =
      Inr (Some threads)"
  then have l: "length (sort_array compare_threads threads) = 250"
    by (simp add: length_sort_array)
  have "paginatedThreads (Some threads) 1000 100 = Some []"
    unfolding paginatedThreads_def using far_page [OF l] by simp
  with a show "list_azure_devops_pull_request_threads_handler (Inr (Inr gitApi)) repositoryId
          pullRequestId' project' iteration baseIteration 100 1000 =
        Inr \<lparr> content = [JSON_stringify (Some [])], isError = None \<rparr>"
    by (simp add: threads_handler_returns)
qed

lemma length_sample_threads: "length sample_threads = 250"
  by (simp add: sample_threads_def)

lemma length_sample_repositories: "length sample_repositories = 250"
  by (simp add: sample_repositories_def)

lemma getThreads_sample:
  "getThreads sample_gitApi r i p a b = Inr (Some sample_threads)"
  by (simp add: sample_gitApi_def)

theorem pagination_slicing_witness:
  "(0::int) \<le> 1 \<and> (0::int) \<le> 2 \<and>
   slice [10, 20, 30, 40 :: nat] 1 (1 + 2) = [20, 30] \<and>
   length sample_threads = 250 \<and>
   paginatedThreads (Some sample_threads) 1000 100 = Some [] \<and>
   length sample_repositories = 250 \<and>
   paginatedRepositories code_unit_compare sample_repositories 1000 100 = [] \<and>
   getThreads sample_gitApi ''repo'' 7 None None None = Inr (Some sample_threads) \<and>
   list_azure_devops_pull_request_threads_handler (Inr (Inr sample_gitApi)) ''repo'' 7
       None None None 100 1000 =
     Inr \<lparr> content = [JSON_stringify (Some [])], isError = None \<rparr>"
proof -
  note inst = pagination_slicing [of 1 2 "[10, 20, 30, 40 :: nat]" sample_threads code_unit_compare
      sample_repositories sample_gitApi "''repo''" 7 None None None]
  have s: "slice [10, 20, 30, 40 :: nat] 1 (1 + 2) = [20, 30]"
    using inst by simp
  have t: "paginatedThreads (Some sample_threads) 1000 100 = Some []"
    using inst length_sample_threads by simp
  have r: "paginatedRepositories code_unit_compare sample_repositories 1000 100 = []"
    using inst length_sample_repositories by simp
  have h: "list_azure_devops_pull_request_threads_handler (Inr (Inr sample_gitApi)) ''repo'' 7
       None None None 100 1000 =
     Inr \<lparr> content = [JSON_stringify (Some [])], isError = None \<rparr>"
    using inst length_sample_threads getThreads_sample by simp
  show ?thesis
    using s t r h length_sample_threads length_sample_repositories getThreads_sample by simp
qed


section \<open>Branch listing\<close>

lemma length_heads: "length ''refs/heads/'' = 11"
  by simp

lemma startsWith_heads: "startsWith n ''refs/heads/'' \<longleftrightarrow> take 11 n = ''refs/heads/''"
  unfolding startsWith_def length_heads by (rule refl)

lemma replace_heads:
  assumes "take 11 n = ''refs/heads/''"
  shows "replace n ''refs/heads/'' [] = drop 11 n"
proof -
  have "startsWith n ''refs/heads/''"
    using assms by (simp only: startsWith_heads)
  then have "replace n ''refs/heads/'' [] = [] @ drop (length ''refs/heads/'') n"
    by (rule replace_prefix)
  then show ?thesis
    unfolding length_heads by simp
qed

lemma stripped_names:
  "map (\<lambda>branch. replace branch ''refs/heads/'' [])
     (filter (\<lambda>branch. startsWith branch ''refs/heads/'')
        (concat (map (\<lambda>branch. case GitRef.name branch of
                                  None \<Rightarrow> []
                                | Some n \<Rightarrow> if n \<noteq> [] then [n] else [])
                   branches))) = branch_names branches"
proof (induction branches)
  case Nil
  then show ?case by (simp add: branch_names_def)
next
  case (Cons b bs)
  show ?case
  proof (cases "GitRef.name b")
    case None
    with Cons show ?thesis by (simp add: branch_names_def)
  next
    case (Some n)
    show ?thesis
    proof (cases "take 11 n = ''refs/heads/''")
      case True
      then have "n \<noteq> []" by auto
      with True Some Cons show ?thesis
        by (simp add: branch_names_def startsWith_heads replace_heads)
    next
      case False
      with Some Cons show ?thesis
        by (simp add: branch_names_def startsWith_heads)
    qed
  qed
qed

lemma branches_filter_eq:
  "0 \<le> top' \<Longrightarrow>
   branchesFilterOutIrrelevantProperties localeCompare (Some branches) top' =
     Some (take (nat top') (sort_array (\<lambda>a b. localeCompare b a) (branch_names branches)))"
  unfolding branchesFilterOutIrrelevantProperties_def option.map stripped_names
  using slice_nonneg [of 0 top'] by simp

lemma branch_names_sample: "branch_names sample_refs = [''main'', ''feature/x'']"
  by (simp add: branch_names_def sample_refs_def)

lemma heads_split:
  "take 11 m = ''refs/heads/'' \<and> drop 11 m = n \<longleftrightarrow> m = ''refs/heads/'' @ n"
proof
  assume a: "take 11 m = ''refs/heads/'' \<and> drop 11 m = n"
  have "m = take 11 m @ drop 11 m" by simp
  with a show "m = ''refs/heads/'' @ n" by simp
next
  assume "m = ''refs/heads/'' @ n"
  then show "take 11 m = ''refs/heads/'' \<and> drop 11 m = n" by simp
qed

lemma set_branch_names:
  "set (branch_names branches) = {n. Some (''refs/heads/'' @ n) \<in> GitRef.name ` set branches}"
proof (induction branches)
  case Nil
  then show ?case by (simp add: branch_names_def)
next
  case (Cons b bs)
  have step: "set (branch_names (b # bs)) =
      (case GitRef.name b of
         None \<Rightarrow> {}
       | Some m \<Rightarrow> if take 11 m = ''refs/heads/'' then {drop 11 m} else {}) \<union>
      set (branch_names bs)"
    by (simp add: branch_names_def split: option.splits)
  have here: "(case GitRef.name b of
         None \<Rightarrow> {}
       | Some m \<Rightarrow> if take 11 m = ''refs/heads/'' then {drop 11 m} else {}) =
      {n. Some (''refs/heads/'' @ n) = GitRef.name b}"
  proof (cases "GitRef.name b")
    case None
    then show ?thesis by simp
  next
    case (Some m)
    have "(if take 11 m = ''refs/heads/'' then {drop 11 m} else {}) =
        {n. take 11 m = ''refs/heads/'' \<and> drop 11 m = n}"
      by auto
    also have "\<dots> = {n. ''refs/heads/'' @ n = m}"
      unfolding heads_split by auto
    finally show ?thesis using Some by simp
  qed
  show ?case
    unfolding step here Cons.IH by auto
qed

text \<open>
  Claim C7. For every list of refs and \<open>top \<ge> 0\<close>, the branch listing is the first
  \<open>top\<close> elements of the sorted branch names, where the branch names are the names
  under \<^verbatim>\<open>refs/heads/\<close> with that prefix removed (every other ref is dropped), and
  the sorted list is a rearrangement of them in descending order of the collation
  \<^verbatim>\<open>localeCompare\<close>. In particular the refs \<^verbatim>\<open>refs/heads/main\<close>,
  \<^verbatim>\<open>refs/heads/feature/x\<close>, \<^verbatim>\<open>refs/tags/v1\<close> with \<open>top = 10\<close> give "main",
  "feature/x", under every collation that puts "feature/x" before "main".
\<close>

theorem branch_listing:
  "(consistent localeCompare \<and> 0 \<le> top' \<longrightarrow>
      branchesFilterOutIrrelevantProperties localeCompare (Some branches) top' =
        Some (take (nat top') (sort_array (\<lambda>a b. localeCompare b a) (branch_names branches))) \<and>
      mset (sort_array (\<lambda>a b. localeCompare b a) (branch_names branches)) =
        mset (branch_names branches) \<and>
      sorted_wrt (\<lambda>a b. localeCompare b a \<le> 0)
        (sort_array (\<lambda>a b. localeCompare b a) (branch_names branches))) \<and>
   (localeCompare ''feature/x'' ''main'' \<le> 0 \<longrightarrow>
      branchesFilterOutIrrelevantProperties localeCompare (Some sample_refs) 10 =
        Some [''main'', ''feature/x'']) \<and>
   set (branch_names branches) =
     {n. Some (''refs/heads/'' @ n) \<in> GitRef.name ` set branches}"
proof (intro conjI impI)
  assume a: "consistent localeCompare \<and> 0 \<le> top'"
  then show "branchesFilterOutIrrelevantProperties localeCompare (Some branches) top' =
        Some (take (nat top') (sort_array (\<lambda>a b. localeCompare b a) (branch_names branches)))"
    by (simp add: branches_filter_eq)
  show "mset (sort_array (\<lambda>a b. localeCompare b a) (branch_names branches)) =
        mset (branch_names branches)"
    by (rule mset_sort_array)
  from a have "consistent (\<lambda>a b. localeCompare b a)"
    by (simp add: consistent_flip)
  then show "sorted_wrt (\<lambda>a b. localeCompare b a \<le> 0)
        (sort_array (\<lambda>a b. localeCompare b a) (branch_names branches))"
    by (rule sorted_sort_array)
next
  assume "localeCompare ''feature/x'' ''main'' \<le> 0"
  then have "sort_array (\<lambda>a b. localeCompare b a) [''main'', ''feature/x''] =
      [''main'', ''feature/x'']"
    by (simp add: sort_array_def)
  then show "branchesFilterOutIrrelevantProperties localeCompare (Some sample_refs) 10 =
        Some [''main'', ''feature/x'']"
    by (simp add: branches_filter_eq branch_names_sample)
next
  show "set (branch_names branches) =
     {n. Some (''refs/heads/'' @ n) \<in> GitRef.name ` set branches}"
    by (rule set_branch_names)
qed

lemma consistent_code_unit_compare: "consistent code_unit_compare"
  unfolding consistent_def code_unit_compare_def by auto

lemma feature_before_main: "code_unit_compare ''feature/x'' ''main'' \<le> 0"
  by (simp add: code_unit_compare_def)

theorem branch_listing_witness:
  "consistent code_unit_compare \<and> (0::int) \<le> 10 \<and>
   code_unit_compare ''feature/x'' ''main'' \<le> 0 \<and>
   branchesFilterOutIrrelevantProperties code_unit_compare (Some sample_refs) 10 =
     Some [''main'', ''feature/x''] \<and>
   sorted_wrt (\<lambda>a b. code_unit_compare b a \<le> 0)
     (sort_array (\<lambda>a b. code_unit_compare b a) (branch_names sample_refs))"
proof -
  note inst = branch_listing [of code_unit_compare 10 sample_refs]
  have general: "consistent code_unit_compare \<and> (0::int) \<le> 10"
    using consistent_code_unit_compare by simp
  from inst [THEN conjunct2, THEN conjunct1] feature_before_main
  have example: "branchesFilterOutIrrelevantProperties code_unit_compare (Some sample_refs) 10 =
      Some [''main'', ''feature/x'']"
    by (rule mp)
  from inst [THEN conjunct1] general
  have "branchesFilterOutIrrelevantProperties code_unit_compare (Some sample_refs) 10 =
        Some (take (nat 10) (sort_array (\<lambda>a b. code_unit_compare b a)
           (branch_names sample_refs))) \<and>
      mset (sort_array (\<lambda>a b. code_unit_compare b a) (branch_names sample_refs)) =
        mset (branch_names sample_refs) \<and>
      sorted_wrt (\<lambda>a b. code_unit_compare b a \<le> 0)
        (sort_array (\<lambda>a b. code_unit_compare b a) (branch_names sample_refs))"
    by (rule mp)
  then have sorted: "sorted_wrt (\<lambda>a b. code_unit_compare b a \<le> 0)
        (sort_array (\<lambda>a b. code_unit_compare b a) (branch_names sample_refs))"
    by (elim conjE)
  from general feature_before_main example sorted show ?thesis
    by (intro conjI) (elim conjE, assumption)+
qed



section \<open>The composite pull-request fetch\<close>




lemma pull_request_handler_cases:
  "get_azure_devops_pull_request_by_id_handler connectionProvider repositoryId pullRequestId' =
     (case getPullRequestResult connectionProvider repositoryId pullRequestId' of
        Inr prRes \<Rightarrow> Inr \<lparr> content = [JSON_stringify prRes], isError = None \<rparr>
      | Inl error \<Rightarrow> catch_with_message error ''Failed to get pull request.'')"
  by (simp add: get_azure_devops_pull_request_by_id_handler_def)













section \<open>Reporting absence\<close>

lemma or_else_Some: "m \<noteq> [] \<Longrightarrow> or_else (Some m) d = m"
  by (simp add: or_else_def)

lemma slice_Nil: "slice [] a b = []"
  by (simp add: slice_def)

lemma getRepositoriesResult_filtered_empty:
  assumes "getRepositories gitApi project' = Inr (Some repos)"
    and "nm \<noteq> []"
    and "filter (repository_matches (toLowerCase nm)) repos = []"
  shows "getRepositoriesResult (Inr (Inr gitApi)) project' (Some nm) =
     Inl (Error (''Repository '' @ nm @ '' not found in project '' @ project'))"
  using assms
  by (simp add: getRepositoriesResult_def await_then_def Let_def toLowerCase_def template_def)

lemma getRepositoriesResult_empty:
  assumes "getRepositories gitApi project' = Inr (Some [])"
  shows "getRepositoriesResult (Inr (Inr gitApi)) project' None =
     Inl (Error (''Repository undefined not found in project '' @ project'))"
  using assms
  by (simp add: getRepositoriesResult_def await_then_def Let_def template_def)

lemma repositories_handler_error:
  assumes "getRepositoriesResult connectionProvider project' repositoryNameOrId = Inl (Error m)"
    and "m \<noteq> []"
  shows "get_azure_devops_repositories_handler localeCompare connectionProvider project' top' skip
      repositoryNameOrId = Inr \<lparr> content = [Plain m], isError = Some True \<rparr>"
  using assms
  by (simp add: get_azure_devops_repositories_handler_def catch_with_message_def await_then_def
      or_else_Some)

lemma branch_handler_not_found:
  assumes "getRefs gitApi repositoryId False = Inr (Some refs)"
    and "Some (''refs/heads/'' @ branchName) \<notin> GitRef.name ` set refs"
  shows "get_branch_by_name_handler (Inr (Inr gitApi)) repositoryId branchName =
     Inr \<lparr> content = [Plain (''Branch '' @ branchName @ '' not found in repository '' @
                                repositoryId)],
           isError = None \<rparr>"
proof -
  have "\<not> (\<exists>x. x \<in> set refs \<and> GitRef.name x = Some (''refs/heads/'' @ branchName))"
    using assms(2) by (metis image_eqI)
  then have "find (\<lambda>branch. GitRef.name branch = Some (''refs/heads/'' @ branchName)) refs = None"
    unfolding find_None_iff .
  with assms(1) show ?thesis
    by (simp add: get_branch_by_name_handler_def await_then_def)
qed

lemma threads_handler_empty:
  assumes "getThreads gitApi repositoryId pullRequestId' project' iteration baseIteration =
      Inr (Some [])"
  shows "list_azure_devops_pull_request_threads_handler (Inr (Inr gitApi)) repositoryId
      pullRequestId' project' iteration baseIteration top' skip =
     Inr \<lparr> content = [JSON_stringify (Some [])], isError = None \<rparr>"
  using assms
  by (simp add: threads_handler_returns paginatedThreads_def sort_array_def slice_Nil)

lemma comments_handler_empty:
  assumes "getComments gitApi repositoryId pullRequestId' threadId project' = Inr (Some [])"
  shows "list_azure_devops_pull_request_comments_by_thread_handler (Inr (Inr gitApi))
      repositoryId pullRequestId' threadId project' top' skip =
     Inr \<lparr> content = [JSON_stringify (Some [])], isError = None \<rparr>"
  using assms
  by (simp add: list_azure_devops_pull_request_comments_by_thread_handler_def await_then_def
      sort_array_def slice_Nil)

lemma branches_handler_empty:
  assumes "getRefs gitApi repositoryId False = Inr (Some refs)"
    and "branch_names refs = []"
  shows "list_branches_by_repo_handler localeCompare (Inr (Inr gitApi)) repositoryId top' =
     Inr \<lparr> content = [JSON_stringify (Some [])], isError = None \<rparr>"
  using assms
  unfolding list_branches_by_repo_handler_def branchesFilterOutIrrelevantProperties_def
  by (simp add: await_then_def stripped_names sort_array_def slice_Nil)

lemma my_branches_handler_empty:
  assumes "getRefs gitApi repositoryId True = Inr (Some refs)"
    and "branch_names refs = []"
  shows "list_my_branches_by_repo_handler localeCompare (Inr (Inr gitApi)) repositoryId top' =
     Inr \<lparr> content = [JSON_stringify (Some [])], isError = None \<rparr>"
  using assms
  unfolding list_my_branches_by_repo_handler_def branchesFilterOutIrrelevantProperties_def
  by (simp add: await_then_def stripped_names sort_array_def slice_Nil)

lemma pull_requests_by_repo_empty:
  assumes "pullRequestStatusStringToInt st = Inr code"
    and "with_current_user user mine reviewing
           \<lparr> criteria_status = code, criteria_repositoryId = Some repositoryId,
             creatorId = None, reviewerId = None \<rparr> = Inr criteria"
    and "getPullRequests gitApi repositoryId criteria skip top' = Inr prs"
    and "prs = None \<or> prs = Some []"
  shows "list_pull_requests_by_repo_handler user (Inr (Inr gitApi)) repositoryId top' skip
      mine reviewing st =
     Inr \<lparr> content = [JSON_stringify []], isError = None \<rparr>"
  using assms
  by (auto simp: list_pull_requests_by_repo_handler_def await_then_def)

lemma pull_requests_by_project_empty:
  assumes "pullRequestStatusStringToInt st = Inr code"
    and "with_current_user user mine reviewing
           \<lparr> criteria_status = code, criteria_repositoryId = None,
             creatorId = None, reviewerId = None \<rparr> = Inr criteria"
    and "getPullRequestsByProject gitApi project' criteria skip top' = Inr prs"
    and "prs = None \<or> prs = Some []"
  shows "list_pull_requests_by_project_handler user (Inr (Inr gitApi)) project' top' skip
      mine reviewing st =
     Inr \<lparr> content = [JSON_stringify []], isError = None \<rparr>"
  using assms
  by (auto simp: list_pull_requests_by_project_handler_def await_then_def)

lemma search_commits_returns:
  assumes "getCommits gitApi repository
             (commits_search_criteria fromCommit toCommit version' versionType' includeLinks
                includeWorkItems) project' skip top' = Inr found"
  shows "search_commits_handler (Inr (Inr gitApi)) project' repository fromCommit toCommit
      version' versionType' skip top' includeLinks includeWorkItems =
     \<lparr> content = [JSON_stringify found], isError = None \<rparr>"
  using assms by (simp add: search_commits_handler_def await_then_def)

lemma pull_requests_by_commits_returns:
  assumes "getPullRequestQuery gitApi
             \<lparr> queries = Some [\<lparr> items = Some commits', queryInput_type = Some queryType \<rparr>],
               results = None \<rparr> repository project' = Inr answer"
  shows "list_pull_requests_by_commits_handler (Inr (Inr gitApi)) project' repository commits'
      queryType = \<lparr> content = [JSON_stringify answer], isError = None \<rparr>"
  using assms by (simp add: list_pull_requests_by_commits_handler_def await_then_def)

lemma pull_request_handler_not_found:
  assumes "getPullRequest gitApi repositoryId pullRequestId' = Inr None"
  shows "get_azure_devops_pull_request_by_id_handler (Inr (Inr gitApi)) repositoryId
      pullRequestId' =
     Inr \<lparr> content = [Plain ''Pull request not found.''], isError = Some True \<rparr>"
  using assms
  by (simp add: pull_request_handler_cases getPullRequestResult_def await_then_def
      catch_with_message_def or_else_def)

lemma changes_handler_returns:
  assumes "getChanges gitApi commitId' repositoryId = Inr (Some found)"
  shows "get_azure_devops_changes_by_commit_handler (Inr (Inr gitApi)) repositoryId commitId' =
     Inr \<lparr> content = [JSON_stringify (toGitCommitChangesResult found)], isError = None \<rparr>"
  using assms by (simp add: get_azure_devops_changes_by_commit_handler_def await_then_def)

lemma changes_handler_nothing:
  assumes "getChanges gitApi commitId' repositoryId = Inr None"
  shows "get_azure_devops_changes_by_commit_handler (Inr (Inr gitApi)) repositoryId commitId' =
     Inr \<lparr> content = [Plain ''No changes found.''], isError = None \<rparr>"
  using assms by (simp add: get_azure_devops_changes_by_commit_handler_def await_then_def)

lemma sample_empty_calls:
  "getThreads sample_gitApi_empty r i p a b = Inr (Some [])"
  "getComments sample_gitApi_empty r i t p = Inr (Some [])"
  "getPullRequests sample_gitApi_empty r c s n = Inr (Some [])"
  "getPullRequestsByProject sample_gitApi_empty q c s n = Inr None"
  "getRefs sample_gitApi_empty r m = Inr (Some sample_tag_refs)"
  "getCommits sample_gitApi_empty r g q s n = Inr (Some [])"
  "getPullRequestQuery sample_gitApi_empty y r q = Inr (Some (y \<lparr> results := Some [[]] \<rparr>))"
  "getChanges sample_gitApi_empty h r = Inr (Some \<lparr> GitCommitChanges.changes = Some [] \<rparr>)"
  "getPullRequest sample_gitApi_empty r i = Inr None"
  "getRepositories sample_gitApi_empty q = Inr (Some [])"
  by (simp_all add: sample_gitApi_empty_def sample_gitApi_def)

lemma sample_no_changes:
  "getChanges (sample_gitApi_empty \<lparr> getChanges := (\<lambda>commitId' repositoryId. Inr None) \<rparr>)
     c r = Inr None"
  by simp

lemma sample_calls:
  "getRepositories sample_gitApi p = Inr (Some [sample_repository])"
  "getRefs sample_gitApi r m = Inr (Some sample_refs)"
  by (simp_all add: sample_gitApi_def)

lemma Zeta_matches_nothing:
  "filter (repository_matches (toLowerCase ''Zeta'')) [sample_repository] = []"
  by code_simp

lemma branch_names_tag: "branch_names sample_tag_refs = []"
  by (simp add: branch_names_def sample_tag_refs_def)

lemma release_not_in_refs:
  "Some (''refs/heads/'' @ ''release'') \<notin> GitRef.name ` set sample_refs"
  by (simp add: sample_refs_def)

lemma active_code: "pullRequestStatusStringToInt ''active'' = Inr 1"
  by (simp add: pullRequestStatusStringToInt_def)

lemma no_current_user: "with_current_user user False False criteria = Inr criteria"
  by (simp add: with_current_user_def)

text \<open>
  Claim C5, as the code has it. Absence is reported tool by tool.
  The listings of the threads of a pull request, of the comments of a thread, of the
  pull requests of a repository and of a project, of the branches and of my
  branches of a repository, and the search for commits answer an empty upstream
  list (the branch listings: a ref list without branch; the listings of pull
  requests: an undefined list too) by the empty list in an envelope without error
  flag, and \<^verbatim>\<open>repo_list_pull_requests_by_commits\<close> returns the answer of the upstream
  query as it is, in an envelope without error flag.
  \<^verbatim>\<open>get_azure_devops_changes_by_commit\<close> answers an empty list of changes by that
  empty list, and no changes at all by the text "No changes found.", both without
  error flag.
  \<^verbatim>\<open>get_azure_devops_repositories\<close>, a listing too, reports an empty list by an
  error-flagged envelope with the text "Repository ... not found in project ...":
  when the name filter matches no repository, and also when there is no filter and
  the project has no repository. \<^verbatim>\<open>get_azure_devops_pull_request_by_id\<close> reports a
  missing pull request by an error-flagged envelope. \<^verbatim>\<open>get_branch_by_name\<close> reports
  a missing branch by the text "Branch ... not found in repository ..." in an
  envelope without error flag.
\<close>

theorem not_found_reporting:
  "(getThreads gitApi repositoryId prId proj_opt iteration baseIteration = Inr (Some []) \<longrightarrow>
      list_azure_devops_pull_request_threads_handler (Inr (Inr gitApi)) repositoryId prId
          proj_opt iteration baseIteration n k =
        Inr \<lparr> content = [JSON_stringify (Some [])], isError = None \<rparr>) \<and>
   (getComments gitApi repositoryId prId threadId proj_opt = Inr (Some []) \<longrightarrow>
      list_azure_devops_pull_request_comments_by_thread_handler (Inr (Inr gitApi)) repositoryId
          prId threadId proj_opt n k =
        Inr \<lparr> content = [JSON_stringify (Some [])], isError = None \<rparr>) \<and>
   (pullRequestStatusStringToInt st = Inr code \<and>
    with_current_user user mine reviewing
      \<lparr> criteria_status = code, criteria_repositoryId = Some repositoryId,
        creatorId = None, reviewerId = None \<rparr> = Inr criteria \<and>
    getPullRequests gitApi repositoryId criteria k n = Inr prs \<and>
    (prs = None \<or> prs = Some []) \<longrightarrow>
      list_pull_requests_by_repo_handler user (Inr (Inr gitApi)) repositoryId n k mine
          reviewing st =
        Inr \<lparr> content = [JSON_stringify []], isError = None \<rparr>) \<and>
   (pullRequestStatusStringToInt st = Inr code \<and>
    with_current_user user mine reviewing
      \<lparr> criteria_status = code, criteria_repositoryId = None,
        creatorId = None, reviewerId = None \<rparr> = Inr project_criteria \<and>
    getPullRequestsByProject gitApi proj project_criteria k n = Inr prs \<and>
    (prs = None \<or> prs = Some []) \<longrightarrow>
      list_pull_requests_by_project_handler user (Inr (Inr gitApi)) proj n k mine
          reviewing st =
        Inr \<lparr> content = [JSON_stringify []], isError = None \<rparr>) \<and>
   (getRefs gitApi repositoryId False = Inr (Some refs) \<and> branch_names refs = [] \<longrightarrow>
      list_branches_by_repo_handler localeCompare (Inr (Inr gitApi)) repositoryId n =
        Inr \<lparr> content = [JSON_stringify (Some [])], isError = None \<rparr>) \<and>
   (getRefs gitApi repositoryId True = Inr (Some my_refs) \<and> branch_names my_refs = [] \<longrightarrow>
      list_my_branches_by_repo_handler localeCompare (Inr (Inr gitApi)) repositoryId n =
        Inr \<lparr> content = [JSON_stringify (Some [])], isError = None \<rparr>) \<and>
   (getCommits gitApi repositoryId
      (commits_search_criteria fromCommit toCommit ver verType includeLinks includeWorkItems)
      proj k n = Inr (Some []) \<longrightarrow>
      search_commits_handler (Inr (Inr gitApi)) proj repositoryId fromCommit toCommit ver
          verType k n includeLinks includeWorkItems =
        \<lparr> content = [JSON_stringify (Some [])], isError = None \<rparr>) \<and>
   (getPullRequestQuery gitApi
      \<lparr> queries = Some [\<lparr> items = Some commitIds, queryInput_type = Some queryType \<rparr>],
        results = None \<rparr> repositoryId proj = Inr answer \<longrightarrow>
      list_pull_requests_by_commits_handler (Inr (Inr gitApi)) proj repositoryId commitIds
          queryType =
        \<lparr> content = [JSON_stringify answer], isError = None \<rparr>) \<and>
   (getChanges gitApi cid repositoryId = Inr (Some found) \<and>
    GitCommitChanges.changes found = Some [] \<longrightarrow>
      get_azure_devops_changes_by_commit_handler (Inr (Inr gitApi)) repositoryId cid =
        Inr \<lparr> content = [JSON_stringify \<lparr> GitCommitChangesResult.changes = Some [] \<rparr>],
              isError = None \<rparr>) \<and>
   (getChanges gitApi cid repositoryId = Inr None \<longrightarrow>
      get_azure_devops_changes_by_commit_handler (Inr (Inr gitApi)) repositoryId cid =
        Inr \<lparr> content = [Plain ''No changes found.''], isError = None \<rparr>) \<and>
   (getRepositories gitApi proj = Inr (Some repos) \<and> nm \<noteq> [] \<and>
    filter (repository_matches (toLowerCase nm)) repos = [] \<longrightarrow>
      get_azure_devops_repositories_handler localeCompare (Inr (Inr gitApi)) proj n k
          (Some nm) =
        Inr \<lparr> content = [Plain (''Repository '' @ nm @ '' not found in project '' @ proj)],
              isError = Some True \<rparr>) \<and>
   (getRepositories gitApi proj = Inr (Some []) \<longrightarrow>
      get_azure_devops_repositories_handler localeCompare (Inr (Inr gitApi)) proj n k None =
        Inr \<lparr> content = [Plain (''Repository undefined not found in project '' @ proj)],
              isError = Some True \<rparr>) \<and>
   (getPullRequest gitApi repositoryId prId = Inr None \<longrightarrow>
      get_azure_devops_pull_request_by_id_handler (Inr (Inr gitApi)) repositoryId prId =
        Inr \<lparr> content = [Plain ''Pull request not found.''], isError = Some True \<rparr>) \<and>
   (getRefs gitApi repositoryId False = Inr (Some refs) \<and>
    Some (''refs/heads/'' @ branchName) \<notin> GitRef.name ` set refs \<longrightarrow>
      get_branch_by_name_handler (Inr (Inr gitApi)) repositoryId branchName =
        Inr \<lparr> content = [Plain (''Branch '' @ branchName @ '' not found in repository '' @
                                   repositoryId)],
              isError = None \<rparr>)"
proof (intro conjI impI)
  assume "getThreads gitApi repositoryId prId proj_opt iteration baseIteration = Inr (Some [])"
  then show "list_azure_devops_pull_request_threads_handler (Inr (Inr gitApi)) repositoryId prId
          proj_opt iteration baseIteration n k =
        Inr \<lparr> content = [JSON_stringify (Some [])], isError = None \<rparr>"
    by (rule threads_handler_empty)
next
  assume "getComments gitApi repositoryId prId threadId proj_opt = Inr (Some [])"
  then show "list_azure_devops_pull_request_comments_by_thread_handler (Inr (Inr gitApi))
          repositoryId prId threadId proj_opt n k =
        Inr \<lparr> content = [JSON_stringify (Some [])], isError = None \<rparr>"
    by (rule comments_handler_empty)
next
  assume "pullRequestStatusStringToInt st = Inr code \<and>
    with_current_user user mine reviewing
      \<lparr> criteria_status = code, criteria_repositoryId = Some repositoryId,
        creatorId = None, reviewerId = None \<rparr> = Inr criteria \<and>
    getPullRequests gitApi repositoryId criteria k n = Inr prs \<and>
    (prs = None \<or> prs = Some [])"
  then show "list_pull_requests_by_repo_handler user (Inr (Inr gitApi)) repositoryId n k mine
          reviewing st =
        Inr \<lparr> content = [JSON_stringify []], isError = None \<rparr>"
    using pull_requests_by_repo_empty by blast
next
  assume "pullRequestStatusStringToInt st = Inr code \<and>
    with_current_user user mine reviewing
      \<lparr> criteria_status = code, criteria_repositoryId = None,
        creatorId = None, reviewerId = None \<rparr> = Inr project_criteria \<and>
    getPullRequestsByProject gitApi proj project_criteria k n = Inr prs \<and>
    (prs = None \<or> prs = Some [])"
  then show "list_pull_requests_by_project_handler user (Inr (Inr gitApi)) proj n k mine
          reviewing st =
        Inr \<lparr> content = [JSON_stringify []], isError = None \<rparr>"
    using pull_requests_by_project_empty by blast
next
  assume "getRefs gitApi repositoryId False = Inr (Some refs) \<and> branch_names refs = []"
  then show "list_branches_by_repo_handler localeCompare (Inr (Inr gitApi)) repositoryId n =
        Inr \<lparr> content = [JSON_stringify (Some [])], isError = None \<rparr>"
    by (simp add: branches_handler_empty)
next
  assume "getRefs gitApi repositoryId True = Inr (Some my_refs) \<and> branch_names my_refs = []"
  then show "list_my_branches_by_repo_handler localeCompare (Inr (Inr gitApi)) repositoryId n =
        Inr \<lparr> content = [JSON_stringify (Some [])], isError = None \<rparr>"
    by (simp add: my_branches_handler_empty)
next
  assume "getCommits gitApi repositoryId
      (commits_search_criteria fromCommit toCommit ver verType includeLinks includeWorkItems)
      proj k n = Inr (Some [])"
  then show "search_commits_handler (Inr (Inr gitApi)) proj repositoryId fromCommit toCommit ver
          verType k n includeLinks includeWorkItems =
        \<lparr> content = [JSON_stringify (Some [])], isError = None \<rparr>"
    by (rule search_commits_returns)
next
  assume "getPullRequestQuery gitApi
      \<lparr> queries = Some [\<lparr> items = Some commitIds, queryInput_type = Some queryType \<rparr>],
        results = None \<rparr> repositoryId proj = Inr answer"
  then show "list_pull_requests_by_commits_handler (Inr (Inr gitApi)) proj repositoryId
          commitIds queryType =
        \<lparr> content = [JSON_stringify answer], isError = None \<rparr>"
    by (rule pull_requests_by_commits_returns)
next
  assume "getChanges gitApi cid repositoryId = Inr (Some found) \<and>
    GitCommitChanges.changes found = Some []"
  then show "get_azure_devops_changes_by_commit_handler (Inr (Inr gitApi)) repositoryId cid =
        Inr \<lparr> content = [JSON_stringify \<lparr> GitCommitChangesResult.changes = Some [] \<rparr>],
              isError = None \<rparr>"
    by (simp add: changes_handler_returns toGitCommitChangesResult_def)
next
  assume "getChanges gitApi cid repositoryId = Inr None"
  then show "get_azure_devops_changes_by_commit_handler (Inr (Inr gitApi)) repositoryId cid =
        Inr \<lparr> content = [Plain ''No changes found.''], isError = None \<rparr>"
    by (rule changes_handler_nothing)
next
  assume "getRepositories gitApi proj = Inr (Some repos) \<and> nm \<noteq> [] \<and>
    filter (repository_matches (toLowerCase nm)) repos = []"
  then have "getRepositoriesResult (Inr (Inr gitApi)) proj (Some nm) =
     Inl (Error (''Repository '' @ nm @ '' not found in project '' @ proj))"
    by (simp add: getRepositoriesResult_filtered_empty)
  then show "get_azure_devops_repositories_handler localeCompare (Inr (Inr gitApi)) proj n k
      (Some nm) =
        Inr \<lparr> content = [Plain (''Repository '' @ nm @ '' not found in project '' @ proj)],
              isError = Some True \<rparr>"
    by (rule repositories_handler_error) simp
next
  assume "getRepositories gitApi proj = Inr (Some [])"
  then have "getRepositoriesResult (Inr (Inr gitApi)) proj None =
     Inl (Error (''Repository undefined not found in project '' @ proj))"
    by (rule getRepositoriesResult_empty)
  then show "get_azure_devops_repositories_handler localeCompare (Inr (Inr gitApi)) proj n k
      None =
        Inr \<lparr> content = [Plain (''Repository undefined not found in project '' @ proj)],
              isError = Some True \<rparr>"
    by (rule repositories_handler_error) simp
next
  assume "getPullRequest gitApi repositoryId prId = Inr None"
  then show "get_azure_devops_pull_request_by_id_handler (Inr (Inr gitApi)) repositoryId prId =
        Inr \<lparr> content = [Plain ''Pull request not found.''], isError = Some True \<rparr>"
    by (rule pull_request_handler_not_found)
next
  assume "getRefs gitApi repositoryId False = Inr (Some refs) \<and>
    Some (''refs/heads/'' @ branchName) \<notin> GitRef.name ` set refs"
  then show "get_branch_by_name_handler (Inr (Inr gitApi)) repositoryId branchName =
        Inr \<lparr> content = [Plain (''Branch '' @ branchName @ '' not found in repository '' @
                                   repositoryId)],
              isError = None \<rparr>"
    by (simp add: branch_handler_not_found)
qed

theorem not_found_reporting_witness:
  "getThreads sample_gitApi_empty ''repo'' 7 None None None = Inr (Some []) \<and>
   list_azure_devops_pull_request_threads_handler (Inr (Inr sample_gitApi_empty)) ''repo'' 7
       None None None 100 0 =
     Inr \<lparr> content = [JSON_stringify (Some [])], isError = None \<rparr> \<and>
   getComments sample_gitApi_empty ''repo'' 7 3 None = Inr (Some []) \<and>
   list_azure_devops_pull_request_comments_by_thread_handler (Inr (Inr sample_gitApi_empty))
       ''repo'' 7 3 None 100 0 =
     Inr \<lparr> content = [JSON_stringify (Some [])], isError = None \<rparr> \<and>
   pullRequestStatusStringToInt ''active'' = Inr 1 \<and>
   with_current_user (Inr (Some ''me'')) True False
     \<lparr> criteria_status = 1, criteria_repositoryId = Some ''repo'',
       creatorId = None, reviewerId = None \<rparr> =
     Inr \<lparr> criteria_status = 1, criteria_repositoryId = Some ''repo'',
           creatorId = Some ''me'', reviewerId = None \<rparr> \<and>
   getPullRequests sample_gitApi_empty ''repo''
     \<lparr> criteria_status = 1, criteria_repositoryId = Some ''repo'',
       creatorId = Some ''me'', reviewerId = None \<rparr> 0 100 = Inr (Some []) \<and>
   list_pull_requests_by_repo_handler (Inr (Some ''me'')) (Inr (Inr sample_gitApi_empty))
       ''repo'' 100 0 True False ''active'' =
     Inr \<lparr> content = [JSON_stringify []], isError = None \<rparr> \<and>
   with_current_user (Inr (Some ''me'')) False False
     \<lparr> criteria_status = 1, criteria_repositoryId = None,
       creatorId = None, reviewerId = None \<rparr> =
     Inr \<lparr> criteria_status = 1, criteria_repositoryId = None,
           creatorId = None, reviewerId = None \<rparr> \<and>
   getPullRequestsByProject sample_gitApi_empty ''proj''
     \<lparr> criteria_status = 1, criteria_repositoryId = None,
       creatorId = None, reviewerId = None \<rparr> 0 100 = Inr None \<and>
   list_pull_requests_by_project_handler (Inr (Some ''me'')) (Inr (Inr sample_gitApi_empty))
       ''proj'' 100 0 False False ''active'' =
     Inr \<lparr> content = [JSON_stringify []], isError = None \<rparr> \<and>
   getRefs sample_gitApi_empty ''repo'' False = Inr (Some sample_tag_refs) \<and>
   getRefs sample_gitApi_empty ''repo'' True = Inr (Some sample_tag_refs) \<and>
   branch_names sample_tag_refs = [] \<and>
   list_branches_by_repo_handler code_unit_compare (Inr (Inr sample_gitApi_empty)) ''repo'' 100 =
     Inr \<lparr> content = [JSON_stringify (Some [])], isError = None \<rparr> \<and>
   list_my_branches_by_repo_handler code_unit_compare (Inr (Inr sample_gitApi_empty)) ''repo''
       100 =
     Inr \<lparr> content = [JSON_stringify (Some [])], isError = None \<rparr> \<and>
   getCommits sample_gitApi_empty ''repo''
     (commits_search_criteria None None (Some ''main'') Branch False False) ''proj'' 0 10 =
     Inr (Some []) \<and>
   search_commits_handler (Inr (Inr sample_gitApi_empty)) ''proj'' ''repo'' None None
       (Some ''main'') Branch 0 10 False False =
     \<lparr> content = [JSON_stringify (Some [])], isError = None \<rparr> \<and>
   getPullRequestQuery sample_gitApi_empty
     \<lparr> queries = Some [\<lparr> items = Some [''c0ffee''],
                         queryInput_type = Some QueryType_LastMergeCommit \<rparr>],
       results = None \<rparr> ''repo'' ''proj'' =
     Inr (Some \<lparr> queries = Some [\<lparr> items = Some [''c0ffee''],
                                    queryInput_type = Some QueryType_LastMergeCommit \<rparr>],
                  results = Some [[]] \<rparr>) \<and>
   list_pull_requests_by_commits_handler (Inr (Inr sample_gitApi_empty)) ''proj'' ''repo''
       [''c0ffee''] QueryType_LastMergeCommit =
     \<lparr> content = [JSON_stringify
                    (Some \<lparr> queries = Some [\<lparr> items = Some [''c0ffee''],
                                               queryInput_type = Some QueryType_LastMergeCommit \<rparr>],
                             results = Some [[]] \<rparr>)],
       isError = None \<rparr> \<and>
   getChanges sample_gitApi_empty ''c0ffee'' ''repo'' =
     Inr (Some \<lparr> GitCommitChanges.changes = Some [] \<rparr>) \<and>
   get_azure_devops_changes_by_commit_handler (Inr (Inr sample_gitApi_empty)) ''repo''
       ''c0ffee'' =
     Inr \<lparr> content = [JSON_stringify \<lparr> GitCommitChangesResult.changes = Some [] \<rparr>],
           isError = None \<rparr> \<and>
   getChanges (sample_gitApi_empty \<lparr> getChanges := (\<lambda>commitId' repositoryId. Inr None) \<rparr>)
       ''c0ffee'' ''repo'' = Inr None \<and>
   get_azure_devops_changes_by_commit_handler
       (Inr (Inr (sample_gitApi_empty
                    \<lparr> getChanges := (\<lambda>commitId' repositoryId. Inr None) \<rparr>)))
       ''repo'' ''c0ffee'' =
     Inr \<lparr> content = [Plain ''No changes found.''], isError = None \<rparr> \<and>
   getRepositories sample_gitApi ''proj'' = Inr (Some [sample_repository]) \<and>
   ''Zeta'' \<noteq> [] \<and>
   filter (repository_matches (toLowerCase ''Zeta'')) [sample_repository] = [] \<and>
   get_azure_devops_repositories_handler code_unit_compare (Inr (Inr sample_gitApi)) ''proj''
       100 0 (Some ''Zeta'') =
     Inr \<lparr> content = [Plain ''Repository Zeta not found in project proj''],
           isError = Some True \<rparr> \<and>
   getRepositories sample_gitApi_empty ''proj'' = Inr (Some []) \<and>
   get_azure_devops_repositories_handler code_unit_compare (Inr (Inr sample_gitApi_empty))
       ''proj'' 100 0 None =
     Inr \<lparr> content = [Plain ''Repository undefined not found in project proj''],
           isError = Some True \<rparr> \<and>
   getPullRequest sample_gitApi_empty ''repo'' 7 = Inr None \<and>
   get_azure_devops_pull_request_by_id_handler (Inr (Inr sample_gitApi_empty)) ''repo'' 7 =
     Inr \<lparr> content = [Plain ''Pull request not found.''], isError = Some True \<rparr> \<and>
   getRefs sample_gitApi ''repo'' False = Inr (Some sample_refs) \<and>
   Some (''refs/heads/'' @ ''release'') \<notin> GitRef.name ` set sample_refs \<and>
   get_branch_by_name_handler (Inr (Inr sample_gitApi)) ''repo'' ''release'' =
     Inr \<lparr> content = [Plain ''Branch release not found in repository repo''],
           isError = None \<rparr>"
proof -
  note empty = not_found_reporting [where gitApi = sample_gitApi_empty
      and repositoryId = "''repo''" and prId = 7 and proj_opt = None and iteration = None
      and baseIteration = None and n = 100 and k = 0 and threadId = 3 and st = "''active''"
      and code = 1 and user = "Inr (Some ''me'')" and proj = "''proj''"
      and refs = sample_tag_refs and my_refs = sample_tag_refs
      and localeCompare = code_unit_compare]
  have user: "with_current_user (Inr (Some ''me'')) True False
     \<lparr> criteria_status = 1, criteria_repositoryId = Some ''repo'',
       creatorId = None, reviewerId = None \<rparr> =
     Inr \<lparr> criteria_status = 1, criteria_repositoryId = Some ''repo'',
           creatorId = Some ''me'', reviewerId = None \<rparr>"
    by (simp add: with_current_user_def await_then_def)
  have threads: "list_azure_devops_pull_request_threads_handler (Inr (Inr sample_gitApi_empty))
       ''repo'' 7 None None None 100 0 =
     Inr \<lparr> content = [JSON_stringify (Some [])], isError = None \<rparr>"
    using empty [THEN conjunct1] by (simp add: sample_empty_calls)
  have comments: "list_azure_devops_pull_request_comments_by_thread_handler
       (Inr (Inr sample_gitApi_empty)) ''repo'' 7 3 None 100 0 =
     Inr \<lparr> content = [JSON_stringify (Some [])], isError = None \<rparr>"
    using empty [THEN conjunct2, THEN conjunct1] by (simp add: sample_empty_calls)
  have by_repo: "list_pull_requests_by_repo_handler (Inr (Some ''me''))
       (Inr (Inr sample_gitApi_empty)) ''repo'' 100 0 True False ''active'' =
     Inr \<lparr> content = [JSON_stringify []], isError = None \<rparr>"
    using not_found_reporting [where gitApi = sample_gitApi_empty
        and repositoryId = "''repo''" and n = 100 and k = 0 and st = "''active''"
        and code = 1 and user = "Inr (Some ''me'')" and mine = True and reviewing = False
        and criteria = "\<lparr> criteria_status = 1, criteria_repositoryId = Some ''repo'',
                           creatorId = Some ''me'', reviewerId = None \<rparr>"
        and prs = "Some []", THEN conjunct2, THEN conjunct2, THEN conjunct1]
    by (simp add: sample_empty_calls active_code user)
  have by_project: "list_pull_requests_by_project_handler (Inr (Some ''me''))
       (Inr (Inr sample_gitApi_empty)) ''proj'' 100 0 False False ''active'' =
     Inr \<lparr> content = [JSON_stringify []], isError = None \<rparr>"
    using not_found_reporting [where gitApi = sample_gitApi_empty
        and proj = "''proj''" and n = 100 and k = 0 and st = "''active''"
        and code = 1 and user = "Inr (Some ''me'')" and mine = False and reviewing = False
        and project_criteria = "\<lparr> criteria_status = 1, criteria_repositoryId = None,
                                   creatorId = None, reviewerId = None \<rparr>"
        and prs = None, THEN conjunct2, THEN conjunct2, THEN conjunct2, THEN conjunct1]
    by (simp add: sample_empty_calls active_code no_current_user)
  have branches: "list_branches_by_repo_handler code_unit_compare (Inr (Inr sample_gitApi_empty))
       ''repo'' 100 =
     Inr \<lparr> content = [JSON_stringify (Some [])], isError = None \<rparr>"
    using empty [THEN conjunct2, THEN conjunct2, THEN conjunct2, THEN conjunct2, THEN conjunct1]
    by (simp add: sample_empty_calls branch_names_tag)
  have my_branches: "list_my_branches_by_repo_handler code_unit_compare
       (Inr (Inr sample_gitApi_empty)) ''repo'' 100 =
     Inr \<lparr> content = [JSON_stringify (Some [])], isError = None \<rparr>"
    using empty [THEN conjunct2, THEN conjunct2, THEN conjunct2, THEN conjunct2, THEN conjunct2,
        THEN conjunct1]
    by (simp add: sample_empty_calls branch_names_tag)
  have commits: "search_commits_handler (Inr (Inr sample_gitApi_empty)) ''proj'' ''repo'' None
       None (Some ''main'') Branch 0 10 False False =
     \<lparr> content = [JSON_stringify (Some [])], isError = None \<rparr>"
    using not_found_reporting [where gitApi = sample_gitApi_empty,
        THEN conjunct2, THEN conjunct2, THEN conjunct2,
        THEN conjunct2, THEN conjunct2, THEN conjunct2, THEN conjunct1]
    by (simp add: sample_empty_calls)
  have by_commits: "list_pull_requests_by_commits_handler (Inr (Inr sample_gitApi_empty))
       ''proj'' ''repo'' [''c0ffee''] QueryType_LastMergeCommit =
     \<lparr> content = [JSON_stringify
                    (Some \<lparr> queries = Some [\<lparr> items = Some [''c0ffee''],
                                               queryInput_type = Some QueryType_LastMergeCommit \<rparr>],
                             results = Some [[]] \<rparr>)],
       isError = None \<rparr>"
    using not_found_reporting [where gitApi = sample_gitApi_empty,
        THEN conjunct2, THEN conjunct2, THEN conjunct2,
        THEN conjunct2, THEN conjunct2, THEN conjunct2, THEN conjunct2, THEN conjunct1]
    by (simp add: sample_empty_calls)
  have empty_changes: "get_azure_devops_changes_by_commit_handler
       (Inr (Inr sample_gitApi_empty)) ''repo'' ''c0ffee'' =
     Inr \<lparr> content = [JSON_stringify \<lparr> GitCommitChangesResult.changes = Some [] \<rparr>],
           isError = None \<rparr>"
    using not_found_reporting [where gitApi = sample_gitApi_empty
        and found = "\<lparr> GitCommitChanges.changes = Some [] \<rparr>",
        THEN conjunct2, THEN conjunct2, THEN conjunct2,
        THEN conjunct2, THEN conjunct2, THEN conjunct2,
        THEN conjunct2, THEN conjunct2, THEN conjunct1]
    by (simp add: sample_empty_calls)
  have no_changes: "get_azure_devops_changes_by_commit_handler
       (Inr (Inr (sample_gitApi_empty
                    \<lparr> getChanges := (\<lambda>commitId' repositoryId. Inr None) \<rparr>)))
       ''repo'' ''c0ffee'' =
     Inr \<lparr> content = [Plain ''No changes found.''], isError = None \<rparr>"
    using not_found_reporting [where gitApi = "sample_gitApi_empty
                    \<lparr> getChanges := (\<lambda>commitId' repositoryId. Inr None) \<rparr>",
        THEN conjunct2, THEN conjunct2, THEN conjunct2,
        THEN conjunct2, THEN conjunct2, THEN conjunct2,
        THEN conjunct2, THEN conjunct2, THEN conjunct2, THEN conjunct1]
    by simp
  have filtered: "get_azure_devops_repositories_handler code_unit_compare
       (Inr (Inr sample_gitApi)) ''proj'' 100 0 (Some ''Zeta'') =
     Inr \<lparr> content = [Plain ''Repository Zeta not found in project proj''],
           isError = Some True \<rparr>"
    using not_found_reporting [where gitApi = sample_gitApi and proj = "''proj''" and nm = "''Zeta''"
        and repos = "[sample_repository]",
        THEN conjunct2, THEN conjunct2, THEN conjunct2,
        THEN conjunct2, THEN conjunct2, THEN conjunct2,
        THEN conjunct2, THEN conjunct2, THEN conjunct2, THEN conjunct2, THEN conjunct1]
    by (simp add: sample_calls Zeta_matches_nothing del: filter.simps)
  have none: "get_azure_devops_repositories_handler code_unit_compare
       (Inr (Inr sample_gitApi_empty)) ''proj'' 100 0 None =
     Inr \<lparr> content = [Plain ''Repository undefined not found in project proj''],
           isError = Some True \<rparr>"
    using not_found_reporting [where gitApi = sample_gitApi_empty and proj = "''proj''",
        THEN conjunct2, THEN conjunct2, THEN conjunct2,
        THEN conjunct2, THEN conjunct2, THEN conjunct2,
        THEN conjunct2, THEN conjunct2, THEN conjunct2,
        THEN conjunct2, THEN conjunct2, THEN conjunct1]
    by (simp add: sample_empty_calls)
  have pull_request: "get_azure_devops_pull_request_by_id_handler
       (Inr (Inr sample_gitApi_empty)) ''repo'' 7 =
     Inr \<lparr> content = [Plain ''Pull request not found.''], isError = Some True \<rparr>"
    using not_found_reporting [where gitApi = sample_gitApi_empty,
        THEN conjunct2, THEN conjunct2, THEN conjunct2,
        THEN conjunct2, THEN conjunct2, THEN conjunct2,
        THEN conjunct2, THEN conjunct2, THEN conjunct2, THEN conjunct2,
        THEN conjunct2, THEN conjunct2, THEN conjunct1]
    by (simp add: sample_empty_calls)
  have branch: "get_branch_by_name_handler (Inr (Inr sample_gitApi)) ''repo'' ''release'' =
     Inr \<lparr> content = [Plain ''Branch release not found in repository repo''],
           isError = None \<rparr>"
    using not_found_reporting [where gitApi = sample_gitApi and repositoryId = "''repo''"
        and branchName = "''release''" and refs = sample_refs,
        THEN conjunct2, THEN conjunct2, THEN conjunct2,
        THEN conjunct2, THEN conjunct2, THEN conjunct2,
        THEN conjunct2, THEN conjunct2, THEN conjunct2, THEN conjunct2,
        THEN conjunct2, THEN conjunct2, THEN conjunct2]
    using release_not_in_refs by (simp add: sample_calls)
  show ?thesis
    using threads comments by_repo by_project branches my_branches commits by_commits
      empty_changes no_changes filtered none pull_request branch release_not_in_refs
    by (simp add: sample_empty_calls sample_calls active_code user no_current_user
        branch_names_tag Zeta_matches_nothing del: filter.simps)
qed

text \<open>
  Claim C5, where the code departs from it: a branch that does not exist is
  reported without error flag, and the listing of the repositories of a project
  that has none, called without a name filter, is reported as an error.
\<close>

theorem missing_branch_is_no_error:
  "getRefs sample_gitApi ''repo'' False = Inr (Some sample_refs) \<and>
   find (\<lambda>branch. GitRef.name branch = Some ''refs/heads/release'') sample_refs = None \<and>
   get_branch_by_name_handler (Inr (Inr sample_gitApi)) ''repo'' ''release'' =
     Inr \<lparr> content = [Plain ''Branch release not found in repository repo''],
           isError = None \<rparr> \<and>
   getRepositories sample_gitApi_empty ''proj'' = Inr (Some []) \<and>
   get_azure_devops_repositories_handler code_unit_compare (Inr (Inr sample_gitApi_empty))
       ''proj'' 100 0 None =
     Inr \<lparr> content = [Plain ''Repository undefined not found in project proj''],
           isError = Some True \<rparr>"
  by code_simp

end
